theory Spec2Isabelle
  imports Main "HOL-Library.Word"
begin

unbundle bit_operations_syntax

section \<open>Python values\<close>

text \<open>
  A Python \<open>str\<close> is a sequence of Unicode code points. Isabelle's \<open>char\<close> has eight
  bits only, so a string of the program is a list of code points (natural numbers);
  \<open>u\<close> turns an ASCII literal into such a list. Non-ASCII characters of the source's
  literals are written as their code point.
\<close>

type_synonym pystr = "nat list"

definition u :: "string \<Rightarrow> pystr" where
  "u s = map of_char s"

text \<open>\<open>str(n)\<close> for an integer: decimal digits, a minus sign for negative numbers.\<close>

function str_nat :: "nat \<Rightarrow> pystr" where
  "str_nat n = (if n < 10 then [48 + n] else str_nat (n div 10) @ [48 + n mod 10])"
  by pat_completeness auto
termination
  by (relation "measure id") auto

declare str_nat.simps [simp del]

definition str_int :: "int \<Rightarrow> pystr" where
  "str_int i = (if i < 0 then 45 # str_nat (nat (- i)) else str_nat (nat i))"

text \<open>Zero padding to a width, as \<open>%d\<close>, \<open>%m\<close>, \<open>%H\<close>, \<open>%Y\<close> of \<open>strftime\<close> do.\<close>

definition zpad :: "nat \<Rightarrow> nat \<Rightarrow> pystr" where
  "zpad w n = replicate (w - length (str_nat n)) 48 @ str_nat n"

text \<open>
  The values a cell of a \<open>sqlite3.Row\<close> or an entry of the candidate dictionary holds:
  \<open>None\<close>, an integer or a string. \<open>py_str\<close> is what an f-string writes for
  the value, \<open>truthy\<close> is Python's truth value (used by \<open>or\<close> and \<open>if\<close>).
\<close>

datatype pyval = PNone | PInt int | PStr pystr

fun py_str :: "pyval \<Rightarrow> pystr" where
  "py_str PNone = u ''None''"
| "py_str (PInt i) = str_int i"
| "py_str (PStr s) = s"

fun truthy :: "pyval \<Rightarrow> bool" where
  "truthy PNone = False"
| "truthy (PInt i) = (i \<noteq> 0)"
| "truthy (PStr s) = (s \<noteq> [])"

section \<open>Clock\<close>

text \<open>
  \<open>datetime.now()\<close> reads the clock of the machine. A reading is a record of its
  fields; the formats are the \<open>strftime\<close> patterns the source uses.
\<close>

record datetime =
  year :: nat
  month :: nat
  day :: nat
  hour :: nat
  minute :: nat
  second :: nat
  microsecond :: nat

definition fmt_Ymd :: "datetime \<Rightarrow> pystr" where
  \<comment> \<open>\<open>strftime('%Y%m%d')\<close>\<close>
  "fmt_Ymd t = zpad 4 (year t) @ zpad 2 (month t) @ zpad 2 (day t)"

definition fmt_Ymd_HMS :: "datetime \<Rightarrow> pystr" where
  \<comment> \<open>\<open>strftime('%Y%m%d_%H%M%S')\<close>\<close>
  "fmt_Ymd_HMS t =
     fmt_Ymd t @ u ''_'' @ zpad 2 (hour t) @ zpad 2 (minute t) @ zpad 2 (second t)"

definition fmt_sql :: "datetime \<Rightarrow> pystr" where
  \<comment> \<open>\<open>strftime('%Y-%m-%d %H:%M:%S')\<close>\<close>
  "fmt_sql t =
     zpad 4 (year t) @ u ''-'' @ zpad 2 (month t) @ u ''-'' @ zpad 2 (day t) @ u '' '' @
     zpad 2 (hour t) @ u '':'' @ zpad 2 (minute t) @ u '':'' @ zpad 2 (second t)"

definition fmt_dmY :: "datetime \<Rightarrow> pystr" where
  \<comment> \<open>\<open>strftime('%d/%m/%Y')\<close>\<close>
  "fmt_dmY t = zpad 2 (day t) @ u ''/'' @ zpad 2 (month t) @ u ''/'' @ zpad 4 (year t)"

definition fmt_HM :: "datetime \<Rightarrow> pystr" where
  \<comment> \<open>\<open>strftime('%H:%M')\<close>\<close>
  "fmt_HM t = zpad 2 (hour t) @ u '':'' @ zpad 2 (minute t)"

definition isoformat :: "datetime \<Rightarrow> pystr" where
  \<comment> \<open>\<open>datetime.isoformat()\<close>: the fraction is written only when it is not zero\<close>
  "isoformat t =
     zpad 4 (year t) @ u ''-'' @ zpad 2 (month t) @ u ''-'' @ zpad 2 (day t) @ u ''T'' @
     zpad 2 (hour t) @ u '':'' @ zpad 2 (minute t) @ u '':'' @ zpad 2 (second t) @
     (if microsecond t = 0 then [] else u ''.'' @ zpad 6 (microsecond t))"

section \<open>Errors and dictionaries\<close>

text \<open>
  The exceptions the modelled code can raise. \<open>KeyError k\<close> is what \<open>d[k]\<close> raises
  for an absent key (the missing-field error of the renderers), \<open>AttributeError\<close> is
  a method call on \<open>None\<close>, \<open>ValueError\<close> a paragraph whose markup does not parse,
  \<open>OSError\<close> a failing \<open>os.makedirs\<close>, \<open>BuildError\<close> any failure of \<open>doc.build\<close>, \<open>UnicodeEncodeError\<close> a string that has no
  UTF-8 encoding.
\<close>

datatype error =
  KeyError string | AttributeError | ValueError | OSError | BuildError | UnicodeEncodeError

type_synonym dict = "string \<rightharpoonup> pyval"

definition getitem :: "dict \<Rightarrow> string \<Rightarrow> error + pyval" where
  \<comment> \<open>\<open>d[k]\<close>\<close>
  "getitem d k = (case d k of None \<Rightarrow> Inl (KeyError k) | Some v \<Rightarrow> Inr v)"

definition get_default :: "dict \<Rightarrow> string \<Rightarrow> pyval \<Rightarrow> pyval" where
  \<comment> \<open>\<open>d.get(k, default)\<close>; \<open>d.get(k)\<close> is \<open>get_default d k PNone\<close>\<close>
  "get_default d k dflt = (case d k of None \<Rightarrow> dflt | Some v \<Rightarrow> v)"

text \<open>
  The fields an f-string reads with \<open>d[k]\<close>, left to right: the first absent key
  raises, otherwise the texts of the values are returned in order.
\<close>

fun getitems :: "dict \<Rightarrow> string list \<Rightarrow> error + pystr list" where
  "getitems d [] = Inr []"
| "getitems d (k # ks) =
     (case getitem d k of
        Inl e \<Rightarrow> Inl e
      | Inr v \<Rightarrow> (case getitems d ks of Inl e \<Rightarrow> Inl e | Inr vs \<Rightarrow> Inr (py_str v # vs)))"

text \<open>Sequencing: an exception ends the computation, a value goes on to the rest.\<close>

definition and_then :: "error + 'a \<Rightarrow> ('a \<Rightarrow> error + 'b) \<Rightarrow> error + 'b" where
  "and_then m f = (case m of Inl err \<Rightarrow> Inl err | Inr v \<Rightarrow> f v)"

section \<open>Documents\<close>

text \<open>
  What \<open>pdf_generator.py\<close> hands to the PDF library: a story of flowables and a page
  callback that draws on the canvas of every page. Lengths are in millimetres
  (\<open>1*cm\<close> is 10, the A4 page is 210 by 297). A paragraph carries its text and the
  name of its style. Paragraphs whose text is a constant of the source without any
  input in it are \<open>StaticParagraph\<close> with the name of the source variable.
\<close>

datatype flowable =
    Paragraph pystr string
  | StaticParagraph string string
  | Spacer int
  | Logo int int
  | Table "pystr list list"

datatype canvas_op =
    DrawImage pystr int int int int
      \<comment> \<open>the QR image of a text, at x, y, with width and height\<close>
  | DrawCentredString int int pystr

record page =
  canvas :: "canvas_op list"
  content :: "flowable list"

type_synonym pdf = "page list"

text \<open>
  What the renderers take from their surroundings: the clock (\<open>clock e k\<close> is the
  \<open>k\<close>-th reading during the call), whether the logo file exists and whether it can
  be loaded as an image, which texts the markup parser of \<open>Paragraph\<close> accepts, the
  library's date parser for the pattern \<open>%Y-%m-%dT%H:%M\<close> (\<open>None\<close> when it raises),
  how the library breaks a story into a first page and the pages after it, and
  whether writing the file succeeds.
\<close>

record render_env =
  clock :: "nat \<Rightarrow> datetime"
  logo_exists :: bool
  logo_loads :: bool
  markup_ok :: "pystr \<Rightarrow> bool"
  strptime :: "pystr \<Rightarrow> datetime option"
  layout :: "flowable list \<Rightarrow> flowable list \<times> flowable list list"
  build_ok :: bool

definition add_qr_and_code :: "pystr option \<Rightarrow> pystr \<Rightarrow> canvas_op list" where
  \<comment> \<open>the page callback of both renderers; \<open>if verification_code:\<close> is false for
      \<open>None\<close> and for the empty string\<close>
  "add_qr_and_code verification_code base_url =
     (case verification_code of
        None \<Rightarrow> []
      | Some c \<Rightarrow>
          if c = [] then []
          else [DrawImage (base_url @ u ''/verify/'' @ c) 12 (297 - 40) 30 30,
                DrawCentredString 105 17
                  (u ''Code de v'' @ [233] @ u ''rification : '' @ c)])"

text \<open>
  \<open>Paragraph(text, style)\<close> parses the markup of its text when it is constructed and
  raises \<open>ValueError\<close> on text it cannot parse. The paragraphs that hold a value of
  the candidate dictionary are built with \<open>new_paragraph\<close>; the others hold constant
  markup of the source (and the date of the clock), which parses.
\<close>

definition new_paragraph :: "render_env \<Rightarrow> pystr \<Rightarrow> string \<Rightarrow> error + flowable" where
  "new_paragraph e txt style =
     (if markup_ok e txt then Inr (Paragraph txt style) else Inl ValueError)"

text \<open>
  \<open>doc.build(elements, onFirstPage=f, onLaterPages=g)\<close>. \<open>Image(...)\<close> is lazy: the
  file is opened when the story is built, so a logo file that exists (both renderers
  then put it into the story) and cannot be loaded fails here. A built document has
  a first page.
\<close>

definition build ::
  "render_env \<Rightarrow> flowable list \<Rightarrow> canvas_op list \<Rightarrow> canvas_op list \<Rightarrow> error + pdf" where
  "build e elements on_first on_later =
     (if \<not> build_ok e \<or> (logo_exists e \<and> \<not> logo_loads e) then Inl BuildError
      else case layout e elements of
             (p, ps) \<Rightarrow>
               Inr (\<lparr>canvas = on_first, content = p\<rparr> #
                    map (\<lambda>q. \<lparr>canvas = on_later, content = q\<rparr>) ps))"

definition nl :: pystr where
  \<comment> \<open>a line break of a triple-quoted literal and the indentation after it\<close>
  "nl = 10 # u ''    ''"

definition logo_fallback :: "flowable list" where
  "logo_fallback =
     [Paragraph (u ''SALSABIL'') ''CustomTitle'',
      Paragraph (u ''Entreprise de Recrutement'') ''CustomSubtitle'',
      Spacer 3]"

text \<open>
  The invitation. The constructor \<open>Image(...)\<close> inside the \<open>try\<close> does not open the
  file, so the \<open>except\<close> branch with the text fall-back is not entered; the fall-back
  is what a missing logo file gives.
\<close>

definition generate_interview_invitation_pdf ::
  "render_env \<Rightarrow> dict \<Rightarrow> pystr option \<Rightarrow> pystr option \<Rightarrow> pystr \<Rightarrow> error + pdf" where
  "generate_interview_invitation_pdf e application_data interview_date verification_code base_url =
     (let header =
            [Paragraph ([201] @ u ''mis le '' @ fmt_dmY (clock e 0)) ''DateStyle'', Spacer 5] @
            (if logo_exists e then [Logo 40 40, Spacer 3] else logo_fallback) @
            [Paragraph (u ''CONVOCATION '' @ [192] @ u '' UN ENTRETIEN'') ''CustomTitle'',
             Spacer 3]
      in
      and_then (getitems application_data
                  [''prenom'', ''nom'', ''email'', ''telephone'', ''adresse'']) (\<lambda>vals.
      let recipient =
            nl @ u ''<b>'' @ [192] @ u '' l'' @ [39] @ u ''attention de :</b><br/>'' @
            nl @ u ''<b>'' @ vals ! 0 @ u '' '' @ vals ! 1 @ u ''</b><br/>'' @
            nl @ vals ! 2 @ u ''<br/>'' @
            nl @ vals ! 3 @ u ''<br/>'' @
            nl @ vals ! 4 @ nl
      in
      and_then (new_paragraph e recipient ''CustomBody'') (\<lambda>recipient_par.
      and_then (getitem application_data ''nom'') (\<lambda>nom.
      let salutation = u ''Madame, Monsieur '' @ py_str nom @ u '',''
      in
      and_then (new_paragraph e salutation ''CustomBody'') (\<lambda>salutation_par.
      and_then (if truthy (get_default application_data ''selected_job_title'' PNone)
                then Inr (get_default application_data ''selected_job_title'' PNone)
                else getitem application_data ''job_title'') (\<lambda>job_title_display.
      let intro =
            nl @ u ''Suite '' @ [224] @ u '' votre candidature pour le poste de <b>'' @
            py_str job_title_display @ u ''</b>, '' @
            nl @ u ''nous avons le plaisir de vous informer que votre profil a retenu notre attention.'' @
            nl
      in
      and_then (new_paragraph e intro ''CustomBody'') (\<lambda>intro_par.
      and_then (case interview_date of None \<Rightarrow> Inl AttributeError | Some raw \<Rightarrow> Inr raw)
        (\<lambda>raw.
      let formatted_day = (case strptime e raw of Some dt \<Rightarrow> fmt_dmY dt | None \<Rightarrow> raw);
          formatted_time =
            (case strptime e raw of
               Some dt \<Rightarrow> fmt_HM dt
             | None \<Rightarrow> [192] @ u '' confirmer'');
          interview_info =
            [[[128197] @ u '' Date'', formatted_day],
             [[128336] @ u '' Heure'', formatted_time],
             [[128205] @ u '' Lieu'', u ''Si'' @ [232] @ u ''ge de SALSABIL''],
             [[128188] @ u '' Poste'', py_str job_title_display]]
      in
      and_then (getitem application_data ''id'') (\<lambda>ident.
      let reference =
            u ''R'' @ [233] @ u ''f'' @ [233] @ u ''rence : CONV-'' @ py_str ident @ u ''-'' @
            fmt_Ymd (clock e 1)
      in
      and_then (new_paragraph e reference ''Footer'') (\<lambda>reference_par.
      let elements =
            header @
            [recipient_par, Spacer 2,
             salutation_par, Spacer 2,
             intro_par, Spacer 2,
             StaticParagraph ''convocation'' ''CustomBody'', Spacer 2,
             Table interview_info, Spacer 2,
             Paragraph (u ''<b>'' @ [9888, 65039] @ u '' IMPORTANT :</b>'') ''CustomInfo'',
             Spacer 1,
             StaticParagraph ''instructions'' ''CustomBody'', Spacer 3,
             Spacer 3, reference_par]
      in build e elements
           (add_qr_and_code verification_code base_url)
           (add_qr_and_code verification_code base_url)))))))))))"

text \<open>
  The acceptance letter reads every candidate field with \<open>get\<close> and a default; of
  the keys only \<open>application_data['id']\<close> of the footer can raise.
\<close>

definition generate_acceptance_letter_pdf ::
  "render_env \<Rightarrow> dict \<Rightarrow> pystr option \<Rightarrow> pystr \<Rightarrow> error + pdf" where
  "generate_acceptance_letter_pdf e application_data verification_code base_url =
     (let gets = (\<lambda>k dflt. py_str (get_default application_data k (PStr dflt)));
          header =
            (if logo_exists e then [Logo 30 30, Spacer 5] else []) @
            [Paragraph ([127881] @ u '' LETTRE D'' @ [39] @ u ''ACCEPTATION '' @ [127881])
               ''CustomTitle'',
             Spacer 3,
             Paragraph (u ''Bienvenue dans l'' @ [39] @ [233] @ u ''quipe SALSABIL !'') ''Subtitle'',
             Spacer 10,
             Paragraph (u ''Djibouti, le '' @ fmt_dmY (clock e 0)) ''DateStyle'',
             Spacer 10];
          recipient =
            nl @ u ''<b>'' @ [192] @ u '' l'' @ [39] @ u ''attention de :</b><br/>'' @
            nl @ gets ''prenom'' [] @ u '' '' @ gets ''nom'' [] @ u ''<br/>'' @
            nl @ gets ''adresse'' (u ''Djibouti'') @ u ''<br/>'' @
            nl @ u ''Email : '' @ gets ''email'' [] @ u ''<br/>'' @
            nl @ u ''T'' @ [233] @ u ''l : '' @ gets ''telephone'' [] @ nl
      in
      and_then (new_paragraph e recipient ''Recipient'') (\<lambda>recipient_par.
      let job_title = gets ''job_title'' (u ''le poste propos'' @ [233]);
          object =
            u ''<b>Objet : Acceptation de votre candidature - '' @ job_title @ u ''</b>''
      in
      and_then (new_paragraph e object ''Object'') (\<lambda>object_par.
      let salutation = u ''Madame, Monsieur '' @ gets ''nom'' [] @ u '',''
      in
      and_then (new_paragraph e salutation ''BodyText'') (\<lambda>salutation_par.
      let para1 =
            nl @ u ''C'' @ [39] @ u ''est avec un immense plaisir que nous vous informons que votre candidature pour le poste de '' @
            nl @ u ''<b>'' @ job_title @ u ''</b> au sein de SALSABIL a '' @ [233] @ u ''t'' @ [233] @
            u '' <b style='' @ [34] @ u ''color: #27ae60;'' @ [34] @ u ''>retenue</b>.'' @ nl
      in
      and_then (new_paragraph e para1 ''BodyText'') (\<lambda>para1_par.
      let contact_data =
            [[[128222] @ u '' T'' @ [233] @ u ''l'' @ [233] @ u ''phone'', u ''+253 XXX XXX XXX''],
             [[128231] @ u '' Email'', u ''rh@salsabil.dj''],
             [[128205] @ u '' Adresse'', u ''SALSABIL, Djibouti'']]
      in
      and_then (getitem application_data ''id'') (\<lambda>ident.
      let reference =
            u ''R'' @ [233] @ u ''f'' @ [233] @ u ''rence : ACCEPT-'' @ py_str ident @ u ''-'' @
            fmt_Ymd (clock e 1)
      in
      and_then (new_paragraph e reference ''Footer'') (\<lambda>reference_par.
      let elements =
            header @
            [recipient_par, Spacer 10,
             object_par, Spacer 8,
             salutation_par, Spacer 5,
             para1_par, Spacer 5,
             StaticParagraph ''para2'' ''BodyText'', Spacer 5,
             StaticParagraph ''para3'' ''BodyText'', Spacer 5,
             Spacer 5, Table contact_data, Spacer 8,
             StaticParagraph ''para4'' ''BodyText'', Spacer 5,
             StaticParagraph ''closing'' ''BodyText'', Spacer 10,
             StaticParagraph ''signature'' ''Signature'', Spacer 5,
             Spacer 5, reference_par]
      in build e elements
           (add_qr_and_code verification_code base_url)
           (add_qr_and_code verification_code base_url))))))))"

section \<open>The applications table and the two phase decisions\<close>

text \<open>
  A row of \<open>applications\<close> is read by column name (\<open>sqlite3.Row\<close>), so it is a
  dictionary; the table maps the primary key \<open>id\<close> to its row. The world outside a
  call is the stored table and the files under \<open>static/\<close>.
\<close>

type_synonym row = dict
type_synonym table = "int \<rightharpoonup> row"

record world =
  applications :: table
  files :: "pystr \<rightharpoonup> pdf"

text \<open>
  A connection works on a copy of the table: \<open>execute\<close> changes the pending copy,
  \<open>commit\<close> stores it, \<open>close\<close> drops what was not committed.
\<close>

record connection =
  committed :: table
  pending :: table

definition get_db_connection :: "world \<Rightarrow> connection" where
  "get_db_connection w = \<lparr>committed = applications w, pending = applications w\<rparr>"

definition execute_update :: "connection \<Rightarrow> int \<Rightarrow> (string \<times> pyval) list \<Rightarrow> connection" where
  \<comment> \<open>\<open>UPDATE applications SET k = v, ... WHERE id = ?\<close>: no row, no change\<close>
  "execute_update c app_id sets =
     (case pending c app_id of
        None \<Rightarrow> c
      | Some r \<Rightarrow> c\<lparr>pending := (pending c)(app_id \<mapsto> r ++ map_of sets)\<rparr>)"

definition commit :: "connection \<Rightarrow> connection" where
  "commit c = c\<lparr>committed := pending c\<rparr>"

definition close :: "connection \<Rightarrow> table" where
  "close c = committed c"

definition sql_text :: "pystr option \<Rightarrow> pyval" where
  \<comment> \<open>a bound parameter: \<open>None\<close> is stored as NULL\<close>
  "sql_text x = (case x of None \<Rightarrow> PNone | Some s \<Rightarrow> PStr s)"

text \<open>
  What a phase decision takes from its surroundings: the clock (\<open>now e k\<close> is the
  \<open>k\<close>-th reading of \<open>datetime.now()\<close> in \<open>models.py\<close> during the call), whether
  \<open>os.makedirs\<close> succeeds, the environment variable \<open>BASE_URL\<close>, and the
  surroundings of the renderer.
\<close>

record workflow_env =
  now :: "nat \<Rightarrow> datetime"
  makedirs_ok :: bool
  BASE_URL :: "pystr option"
  renderer :: render_env

definition convocation_pdf_filename :: "int \<Rightarrow> datetime \<Rightarrow> pystr" where
  \<comment> \<open>\<open>pdf_filename\<close> of \<open>update_phase1_status\<close>\<close>
  "convocation_pdf_filename app_id t =
     u ''convocation_'' @ str_int app_id @ u ''_'' @ fmt_Ymd_HMS t @ u ''.pdf''"

definition convocation_verification_code :: "int \<Rightarrow> datetime \<Rightarrow> pystr" where
  \<comment> \<open>\<open>verification_code\<close> of \<open>update_phase1_status\<close>\<close>
  "convocation_verification_code app_id t = u ''CONV-'' @ str_int app_id @ u ''-'' @ fmt_Ymd t"

text \<open>
  The body of the \<open>try\<close> of \<open>update_phase1_status\<close>: it returns the exception that
  leaves the block, or the connection and the files after it.
\<close>

definition generate_convocation ::
  "workflow_env \<Rightarrow> connection \<Rightarrow> (pystr \<rightharpoonup> pdf) \<Rightarrow> int \<Rightarrow> pystr option \<Rightarrow>
   error + connection \<times> (pystr \<rightharpoonup> pdf)" where
  "generate_convocation e conn fs app_id interview_date =
     (case pending conn app_id of
        None \<Rightarrow> Inr (conn, fs)
      | Some application \<Rightarrow>
          if \<not> makedirs_ok e then Inl OSError
          else
            let pdf_filename = convocation_pdf_filename app_id (now e 1);
                pdf_path = u ''static/convocations/'' @ pdf_filename;
                verification_code = convocation_verification_code app_id (now e 2);
                base_url = (case BASE_URL e of None \<Rightarrow> u ''http://localhost:5000'' | Some b \<Rightarrow> b);
                app_data = application
            in and_then
                 (generate_interview_invitation_pdf (renderer e) app_data interview_date
                    (Some verification_code) base_url)
                 (\<lambda>doc.
                    Inr (commit (execute_update conn app_id
                                   [(''interview_invitation_pdf'', PStr pdf_filename)]),
                         fs(pdf_path \<mapsto> doc))))"

text \<open>
  The result of a phase decision is the world after it and the exception the
  \<open>except\<close> clause caught and printed, if any.
\<close>

definition update_phase1_status ::
  "workflow_env \<Rightarrow> world \<Rightarrow> int \<Rightarrow> pystr \<Rightarrow> pystr option \<Rightarrow> pystr option \<Rightarrow>
   world \<times> error option" where
  "update_phase1_status e w app_id decision interview_date rejection_reason =
     (let conn = get_db_connection w;
          current_date = fmt_sql (now e 0)
      in
      if decision = u ''selected_for_interview'' then
        let conn1 = execute_update conn app_id
              [(''phase1_status'', PStr decision),
               (''phase1_date'', PStr current_date),
               (''interview_date'', sql_text interview_date),
               (''workflow_phase'', PStr (u ''phase1'')),
               (''status'', PStr (u ''interview programm'' @ [233]))]
        in (case generate_convocation e conn1 (files w) app_id interview_date of
              Inl err \<Rightarrow> (\<lparr>applications = close (commit conn1), files = files w\<rparr>, Some err)
            | Inr (conn2, fs) \<Rightarrow> (\<lparr>applications = close (commit conn2), files = fs\<rparr>, None))
      else if decision = u ''rejected'' then
        let conn1 = execute_update conn app_id
              [(''phase1_status'', PStr decision),
               (''phase1_date'', PStr current_date),
               (''rejection_reason'', sql_text rejection_reason),
               (''workflow_phase'', PStr (u ''completed'')),
               (''status'', PStr (u ''rejet'' @ [233] @ u ''e''))]
        in (\<lparr>applications = close (commit conn1), files = files w\<rparr>, None)
      else (\<lparr>applications = close (commit conn), files = files w\<rparr>, None))"

definition update_phase2_status ::
  "workflow_env \<Rightarrow> world \<Rightarrow> int \<Rightarrow> pystr \<Rightarrow> pystr option \<Rightarrow> world \<times> error option" where
  "update_phase2_status e w app_id decision rejection_reason =
     (let conn = get_db_connection w;
          current_date = fmt_sql (now e 0)
      in
      if decision = u ''accepted'' then
        let conn1 = execute_update conn app_id
              [(''phase2_status'', PStr decision),
               (''phase2_date'', PStr current_date),
               (''workflow_phase'', PStr (u ''completed'')),
               (''status'', PStr (u ''accept'' @ [233] @ u ''e''))]
        in (\<lparr>applications = close (commit conn1), files = files w\<rparr>, None)
      else if decision = u ''rejected'' then
        let conn1 = execute_update conn app_id
              [(''phase2_status'', PStr decision),
               (''phase2_date'', PStr current_date),
               (''rejection_reason'', sql_text rejection_reason),
               (''workflow_phase'', PStr (u ''completed'')),
               (''status'', PStr (u ''rejet'' @ [233] @ u ''e''))]
        in (\<lparr>applications = close (commit conn1), files = files w\<rparr>, None)
      else (\<lparr>applications = close (commit conn), files = files w\<rparr>, None))"

section \<open>SHA-256, hex digests and the verification code\<close>

text \<open>
  \<open>hashlib.sha256(data).hexdigest()\<close> after FIPS 180-4, on bytes; \<open>str.encode()\<close> is
  UTF-8. The state of the hash is the eight working words.
\<close>

type_synonym byte = "8 word"
type_synonym w32 = "32 word"
type_synonym sha_state = "w32 \<times> w32 \<times> w32 \<times> w32 \<times> w32 \<times> w32 \<times> w32 \<times> w32"

definition sha_K :: "w32 list" where
  "sha_K =
     [0x428A2F98, 0x71374491, 0xB5C0FBCF, 0xE9B5DBA5, 0x3956C25B, 0x59F111F1,
      0x923F82A4, 0xAB1C5ED5, 0xD807AA98, 0x12835B01, 0x243185BE, 0x550C7DC3,
      0x72BE5D74, 0x80DEB1FE, 0x9BDC06A7, 0xC19BF174, 0xE49B69C1, 0xEFBE4786,
      0x0FC19DC6, 0x240CA1CC, 0x2DE92C6F, 0x4A7484AA, 0x5CB0A9DC, 0x76F988DA,
      0x983E5152, 0xA831C66D, 0xB00327C8, 0xBF597FC7, 0xC6E00BF3, 0xD5A79147,
      0x06CA6351, 0x14292967, 0x27B70A85, 0x2E1B2138, 0x4D2C6DFC, 0x53380D13,
      0x650A7354, 0x766A0ABB, 0x81C2C92E, 0x92722C85, 0xA2BFE8A1, 0xA81A664B,
      0xC24B8B70, 0xC76C51A3, 0xD192E819, 0xD6990624, 0xF40E3585, 0x106AA070,
      0x19A4C116, 0x1E376C08, 0x2748774C, 0x34B0BCB5, 0x391C0CB3, 0x4ED8AA4A,
      0x5B9CCA4F, 0x682E6FF3, 0x748F82EE, 0x78A5636F, 0x84C87814, 0x8CC70208,
      0x90BEFFFA, 0xA4506CEB, 0xBEF9A3F7, 0xC67178F2]"

definition sha_H0 :: sha_state where
  "sha_H0 = (0x6A09E667, 0xBB67AE85, 0x3C6EF372, 0xA54FF53A,
             0x510E527F, 0x9B05688C, 0x1F83D9AB, 0x5BE0CD19)"

definition Ch :: "w32 \<Rightarrow> w32 \<Rightarrow> w32 \<Rightarrow> w32" where
  "Ch x y z = (x AND y) XOR (NOT x AND z)"

definition Maj :: "w32 \<Rightarrow> w32 \<Rightarrow> w32 \<Rightarrow> w32" where
  "Maj x y z = (x AND y) XOR (x AND z) XOR (y AND z)"

definition Sigma0 :: "w32 \<Rightarrow> w32" where
  "Sigma0 x = word_rotr 2 x XOR word_rotr 13 x XOR word_rotr 22 x"

definition Sigma1 :: "w32 \<Rightarrow> w32" where
  "Sigma1 x = word_rotr 6 x XOR word_rotr 11 x XOR word_rotr 25 x"

definition sigma0 :: "w32 \<Rightarrow> w32" where
  "sigma0 x = word_rotr 7 x XOR word_rotr 18 x XOR drop_bit 3 x"

definition sigma1 :: "w32 \<Rightarrow> w32" where
  "sigma1 x = word_rotr 17 x XOR word_rotr 19 x XOR drop_bit 10 x"

definition sha_pad :: "byte list \<Rightarrow> byte list" where
  \<comment> \<open>a one bit, zeros up to 56 modulo 64, the bit length as 64 bits, big endian\<close>
  "sha_pad m =
     (let n = length m;
          bits = (word_of_nat (8 * n) :: 64 word)
      in m @ [0x80] @ replicate ((119 - n mod 64) mod 64) 0 @
         map (\<lambda>i. ucast (drop_bit (8 * (7 - i)) bits)) [0..<8])"

function chunks :: "nat \<Rightarrow> 'a list \<Rightarrow> 'a list list" where
  "chunks n xs = (if n = 0 \<or> xs = [] then [] else take n xs # chunks n (drop n xs))"
  by pat_completeness auto
termination
  by (relation "measure (\<lambda>(n, xs). length xs)") auto

declare chunks.simps [simp del]

definition be32 :: "byte list \<Rightarrow> w32" where
  \<comment> \<open>four bytes, big endian\<close>
  "be32 bs = foldl (\<lambda>acc b. push_bit 8 acc OR ucast b) 0 bs"

fun schedule :: "nat \<Rightarrow> w32 list \<Rightarrow> w32 list" where
  "schedule 0 ws = ws"
| "schedule (Suc k) ws =
     (let t = length ws
      in schedule k
           (ws @ [sigma1 (ws ! (t - 2)) + ws ! (t - 7) + sigma0 (ws ! (t - 15)) + ws ! (t - 16)]))"

definition sha_round :: "sha_state \<Rightarrow> w32 \<times> w32 \<Rightarrow> sha_state" where
  "sha_round s kw =
     (case s of (a, b, c, d, e, f, g, h) \<Rightarrow>
        let t1 = h + Sigma1 e + Ch e f g + fst kw + snd kw;
            t2 = Sigma0 a + Maj a b c
        in (t1 + t2, a, b, c, d + t1, e, f, g))"

definition sha_add :: "sha_state \<Rightarrow> sha_state \<Rightarrow> sha_state" where
  "sha_add s t =
     (case s of (a, b, c, d, e, f, g, h) \<Rightarrow>
      case t of (a', b', c', d', e', f', g', h') \<Rightarrow>
        (a + a', b + b', c + c', d + d', e + e', f + f', g + g', h + h'))"

definition sha_block :: "sha_state \<Rightarrow> byte list \<Rightarrow> sha_state" where
  "sha_block s block =
     (let w = schedule 48 (map be32 (chunks 4 block))
      in sha_add s (foldl sha_round s (zip sha_K w)))"

definition sha256 :: "byte list \<Rightarrow> sha_state" where
  "sha256 m = foldl sha_block sha_H0 (chunks 64 (sha_pad m))"

definition hex_digit :: "nat \<Rightarrow> nat" where
  \<comment> \<open>the lower-case hexadecimal digit of a number below 16\<close>
  "hex_digit n = (if n < 10 then 48 + n else 87 + n)"

definition hex32 :: "w32 \<Rightarrow> pystr" where
  "hex32 x = map (\<lambda>i. hex_digit (unat (drop_bit (4 * (7 - i)) x AND 0xF))) [0..<8]"

definition hex8 :: "byte \<Rightarrow> pystr" where
  "hex8 x = [hex_digit (unat (drop_bit 4 x)), hex_digit (unat (x AND 0xF))]"

definition hexdigest :: "sha_state \<Rightarrow> pystr" where
  "hexdigest s =
     (case s of (a, b, c, d, e, f, g, h) \<Rightarrow>
        hex32 a @ hex32 b @ hex32 c @ hex32 d @ hex32 e @ hex32 f @ hex32 g @ hex32 h)"

definition utf8 :: "nat \<Rightarrow> byte list" where
  "utf8 c =
     (if c < 0x80 then [of_nat c]
      else if c < 0x800 then [of_nat (0xC0 + c div 64), of_nat (0x80 + c mod 64)]
      else if c < 0x10000 then
        [of_nat (0xE0 + c div 4096), of_nat (0x80 + c div 64 mod 64), of_nat (0x80 + c mod 64)]
      else
        [of_nat (0xF0 + c div 262144), of_nat (0x80 + c div 4096 mod 64),
         of_nat (0x80 + c div 64 mod 64), of_nat (0x80 + c mod 64)])"

definition encode :: "pystr \<Rightarrow> error + byte list" where
  \<comment> \<open>\<open>str.encode()\<close>: a surrogate code point has no UTF-8 encoding\<close>
  "encode s =
     (if \<exists>c \<in> set s. 0xD800 \<le> c \<and> c \<le> 0xDFFF then Inl UnicodeEncodeError
      else Inr (concat (map utf8 s)))"

definition upper :: "pystr \<Rightarrow> pystr" where
  \<comment> \<open>\<open>str.upper()\<close> on ASCII text, which is what a hex digest is\<close>
  "upper s = map (\<lambda>c. if 97 \<le> c \<and> c \<le> 122 then c - 32 else c) s"

definition token_hex :: "(nat \<Rightarrow> byte) \<Rightarrow> nat \<Rightarrow> pystr" where
  \<comment> \<open>\<open>secrets.token_hex(n)\<close>: \<open>n\<close> bytes of the system's random source, in hex\<close>
  "token_hex random n = concat (map (\<lambda>i. hex8 (random i)) [0..<n])"

definition generate_verification_code ::
  "datetime \<Rightarrow> (nat \<Rightarrow> byte) \<Rightarrow> int \<Rightarrow> pystr \<Rightarrow> error + pystr" where
  "generate_verification_code t random application_id document_type =
     (let timestamp = isoformat t;
          random_salt = token_hex random 16;
          data = str_int application_id @ u ''-'' @ document_type @ u ''-'' @ timestamp @
                 u ''-'' @ random_salt
      in and_then (encode data)
           (\<lambda>bytes. Inr (upper (take 16 (hexdigest (sha256 bytes))))))"

section \<open>File names\<close>

text \<open>
  The patterns of \<open>re.sub\<close> are \<open>str\<close> patterns, so \<open>\w\<close> and \<open>\s\<close> are the Unicode
  classes: \<open>\w\<close> is every alphanumeric character and the underscore, \<open>\s\<close> every
  white-space character. On ASCII the classes are written out; for the other code
  points they are read from the tables of the Unicode database, a parameter.
\<close>

record unicode_tables =
  uc_alnum :: "nat \<Rightarrow> bool"
  uc_space :: "nat \<Rightarrow> bool"

definition ascii_alnum :: "nat \<Rightarrow> bool" where
  "ascii_alnum c = (48 \<le> c \<and> c \<le> 57 \<or> 65 \<le> c \<and> c \<le> 90 \<or> 97 \<le> c \<and> c \<le> 122)"

definition re_w :: "unicode_tables \<Rightarrow> nat \<Rightarrow> bool" where
  "re_w U c = (if c < 128 then ascii_alnum c \<or> c = 95 else uc_alnum U c)"

definition re_s :: "unicode_tables \<Rightarrow> nat \<Rightarrow> bool" where
  "re_s U c = (if c < 128 then 9 \<le> c \<and> c \<le> 13 \<or> 28 \<le> c \<and> c \<le> 32 else uc_space U c)"

text \<open>\<open>re.sub('[class]+', rep, s)\<close>: every maximal run of the class becomes \<open>rep\<close>.\<close>

function sub_runs :: "(nat \<Rightarrow> bool) \<Rightarrow> pystr \<Rightarrow> pystr \<Rightarrow> pystr" where
  "sub_runs P rep [] = []"
| "sub_runs P rep (c # cs) =
     (if P c then rep @ sub_runs P rep (dropWhile P cs) else c # sub_runs P rep cs)"
  by pat_completeness auto
termination
  by (relation "measure (\<lambda>(P, rep, s). length s)")
     (auto simp add: less_Suc_eq_le length_dropWhile_le)

definition clean_name :: "unicode_tables \<Rightarrow> pystr \<Rightarrow> pystr" where
  \<comment> \<open>the two substitutions both file-name functions start with\<close>
  "clean_name U candidate_name =
     (let clean = filter (\<lambda>c. re_w U c \<or> re_s U c \<or> c = 45) candidate_name
      in sub_runs (\<lambda>c. c = 45 \<or> re_s U c) (u ''_'') clean)"

definition generate_interview_invitation_filename ::
  "unicode_tables \<Rightarrow> datetime \<Rightarrow> pystr \<Rightarrow> int \<Rightarrow> pystr" where
  "generate_interview_invitation_filename U t candidate_name application_id =
     u ''Convocation_Entretien_'' @ clean_name U candidate_name @ u ''_'' @
     str_int application_id @ u ''_'' @ fmt_Ymd_HMS t @ u ''.pdf''"

definition generate_acceptance_letter_filename ::
  "unicode_tables \<Rightarrow> datetime \<Rightarrow> pystr \<Rightarrow> int \<Rightarrow> pystr" where
  "generate_acceptance_letter_filename U t candidate_name application_id =
     u ''Lettre_Acceptation_'' @ clean_name U candidate_name @ u ''_'' @
     str_int application_id @ u ''_'' @ fmt_Ymd_HMS t @ u ''.pdf''"

text \<open>The character class \<open>[A-Za-z0-9_-]\<close>.\<close>

definition ascii_name_char :: "nat \<Rightarrow> bool" where
  "ascii_name_char c = (ascii_alnum c \<or> c = 95 \<or> c = 45)"

text \<open>The lower-case hexadecimal digits.\<close>

definition hex_lower :: "nat \<Rightarrow> bool" where
  "hex_lower c = (48 \<le> c \<and> c \<le> 57 \<or> 97 \<le> c \<and> c \<le> 102)"

text \<open>The character class \<open>[A-Z0-9]\<close>.\<close>

definition upper_alnum :: "nat \<Rightarrow> bool" where
  "upper_alnum c = (48 \<le> c \<and> c \<le> 57 \<or> 65 \<le> c \<and> c \<le> 90)"

text \<open>
  The Unicode tables on the Latin-1 supplement, as CPython has them (code points
  128 to 255); for the concrete inputs below, which stay under 256.
\<close>

definition latin1_tables :: unicode_tables where
  "latin1_tables =
     \<lparr>uc_alnum = (\<lambda>c. c \<in> {170, 178, 179, 181, 185, 186, 188, 189, 190} \<or>
                        192 \<le> c \<and> c \<le> 214 \<or> 216 \<le> c \<and> c \<le> 246 \<or> 248 \<le> c \<and> c \<le> 255),
      uc_space = (\<lambda>c. c = 133 \<or> c = 160)\<rparr>"

section \<open>The verification registry\<close>

text \<open>
  Modelled from the spec: the operations \<open>issue\<close> and \<open>lookup\<close> of the verification
  code registry are not in the source files at hand; only the table
  \<open>document_verifications\<close> is (\<open>init_db\<close>). A record is a row of that table; \<open>issue\<close>
  generates a code with \<open>generate_verification_code\<close> and inserts the row, failing
  with \<open>GenerationError\<close> when the row cannot be stored (the column
  \<open>verification_code\<close> is \<open>UNIQUE\<close>); \<open>lookup\<close> is an exact, case-sensitive match on the
  code.
\<close>

record verification_record =
  verification_code :: pystr
  application_id :: int
  document_type :: pystr
  candidate_name :: pystr
  job_title :: pystr
  issue_date :: pystr
  pdf_path :: pystr
  status :: pystr

datatype registry_error = GenerationError | NotFound

type_synonym registry = "verification_record list"

definition lookup :: "registry \<Rightarrow> pystr \<Rightarrow> registry_error + verification_record" where
  "lookup reg code =
     (case find (\<lambda>r. verification_code r = code) reg of
        None \<Rightarrow> Inl NotFound
      | Some r \<Rightarrow> Inr r)"

definition issue ::
  "datetime \<Rightarrow> (nat \<Rightarrow> byte) \<Rightarrow> registry \<Rightarrow> int \<Rightarrow> pystr \<Rightarrow> pystr \<Rightarrow> pystr \<Rightarrow> pystr \<Rightarrow> pystr \<Rightarrow>
   registry_error + verification_record \<times> registry" where
  "issue t random reg applicationId documentType candidateName jobTitle issueDate documentHandle =
     (case generate_verification_code t random applicationId documentType of
        Inl err \<Rightarrow> Inl GenerationError
      | Inr code \<Rightarrow>
          if code \<in> set (map verification_code reg) then Inl GenerationError
          else
            let r = \<lparr>verification_code = code, application_id = applicationId,
                     document_type = documentType, candidate_name = candidateName,
                     job_title = jobTitle, issue_date = issueDate,
                     pdf_path = documentHandle, status = u ''valide''\<rparr>
            in Inr (r, reg @ [r]))"

text \<open>A column of the stored row of an application (\<open>None\<close>: no such row or column).\<close>

definition field :: "world \<Rightarrow> int \<Rightarrow> string \<Rightarrow> pyval option" where
  "field w app_id k = (case applications w app_id of None \<Rightarrow> None | Some r \<Rightarrow> r k)"

text \<open>
  Two names for stating what \<open>update_phase1_status\<close> does: the row after the
  \<open>UPDATE\<close> of the branch \<open>selected_for_interview\<close>, and the base URL it reads from
  the environment.
\<close>

definition selected_row :: "workflow_env \<Rightarrow> row \<Rightarrow> pystr option \<Rightarrow> row" where
  "selected_row e r interview_date =
     r ++ map_of
       [(''phase1_status'', PStr (u ''selected_for_interview'')),
        (''phase1_date'', PStr (fmt_sql (now e 0))),
        (''interview_date'', sql_text interview_date),
        (''workflow_phase'', PStr (u ''phase1'')),
        (''status'', PStr (u ''interview programm'' @ [233]))]"

definition base_url_of :: "workflow_env \<Rightarrow> pystr" where
  "base_url_of e = (case BASE_URL e of None \<Rightarrow> u ''http://localhost:5000'' | Some b \<Rightarrow> b)"

section \<open>Concrete inputs\<close>

text \<open>
  One application, as \<open>create_application\<close> leaves it, on the morning of 15 October
  2025: no logo file, a markup parser that accepts every text, a one-page layout, a
  date parser that knows one date.
\<close>

definition example_time :: datetime where
  "example_time =
     \<lparr>year = 2025, month = 10, day = 15, hour = 9, minute = 30, second = 0, microsecond = 0\<rparr>"

definition example_renderer :: render_env where
  "example_renderer =
     \<lparr>clock = (\<lambda>k. example_time), logo_exists = False, logo_loads = False,
      markup_ok = (\<lambda>s. True),
      strptime = (\<lambda>s. if s = u ''2025-10-20T14:00''
                       then Some \<lparr>year = 2025, month = 10, day = 20, hour = 14, minute = 0,
                                   second = 0, microsecond = 0\<rparr>
                       else None),
      layout = (\<lambda>es. (es, [])), build_ok = True\<rparr>"

definition example_env :: workflow_env where
  "example_env =
     \<lparr>now = (\<lambda>k. example_time), makedirs_ok = True, BASE_URL = None,
      renderer = example_renderer\<rparr>"

definition example_row :: row where
  "example_row = map_of
     [(''id'', PInt 5), (''job_id'', PInt 2), (''job_title'', PStr (u ''Comptable'')),
      (''prenom'', PStr (u ''Amina'')), (''nom'', PStr (u ''Hassan'')),
      (''email'', PStr (u ''amina@example.org'')), (''telephone'', PStr (u ''77000000'')),
      (''adresse'', PStr (u ''Djibouti'')),
      (''status'', PStr (u ''en attente'')), (''workflow_phase'', PStr (u ''phase1'')),
      (''phase1_status'', PStr (u ''pending'')), (''phase1_date'', PNone),
      (''interview_date'', PNone), (''interview_invitation_pdf'', PNone),
      (''phase2_status'', PNone), (''phase2_date'', PNone), (''rejection_reason'', PNone)]"

definition example_world :: world where
  "example_world = \<lparr>applications = [5 \<mapsto> example_row], files = Map.empty\<rparr>"

text \<open>The same surroundings with a PDF library that fails to build the file.\<close>

definition failing_env :: workflow_env where
  "failing_env = example_env\<lparr>renderer := example_renderer\<lparr>build_ok := False\<rparr>\<rparr>"

text \<open>The application after an earlier invitation was generated on 1 October.\<close>

definition invited_world :: world where
  "invited_world =
     \<lparr>applications =
        [5 \<mapsto> example_row(''interview_invitation_pdf'' \<mapsto>
                  PStr (u ''convocation_5_20251001_101500.pdf''))],
      files = Map.empty\<rparr>"

text \<open>The application after it was rejected in phase 1.\<close>

definition rejected_world :: world where
  "rejected_world =
     fst (update_phase1_status example_env example_world 5 (u ''rejected'') None
            (Some (u ''profil insuffisant'')))"

text \<open>The afternoon of the same day.\<close>

definition later_time :: datetime where
  "later_time =
     \<lparr>year = 2025, month = 10, day = 15, hour = 16, minute = 45, second = 10, microsecond = 0\<rparr>"

definition later_env :: workflow_env where
  "later_env = example_env\<lparr>now := (\<lambda>k. later_time)\<rparr>"

section \<open>Sequencing\<close>

lemma and_then_Inr_iff: "and_then m f = Inr y \<longleftrightarrow> (\<exists>v. m = Inr v \<and> f v = Inr y)"
  by (cases m) (simp_all add: and_then_def)

lemma and_then_Inl_iff:
  "and_then m f = Inl err \<longleftrightarrow> (m = Inl err \<or> (\<exists>v. m = Inr v \<and> f v = Inl err))"
  by (cases m) (simp_all add: and_then_def)

section \<open>When the renderers return\<close>

lemma getitem_Inr_iff: "(\<exists>v. getitem d k = Inr v) \<longleftrightarrow> d k \<noteq> None"
  by (auto simp add: getitem_def split: option.splits)

lemma getitem_Inl_iff: "getitem d k = Inl err \<longleftrightarrow> (d k = None \<and> err = KeyError k)"
  by (auto simp add: getitem_def split: option.splits)

lemma getitems_Inr_iff: "(\<exists>vs. getitems d ks = Inr vs) \<longleftrightarrow> (\<forall>k \<in> set ks. d k \<noteq> None)"
  by (induction ks) (auto simp add: getitem_def split: option.splits sum.splits)

lemma getitems_Inl: "getitems d ks = Inl err \<Longrightarrow> \<exists>k \<in> set ks. d k = None \<and> err = KeyError k"
  by (induction ks) (auto simp add: getitem_def split: option.splits sum.splits)

lemma new_paragraph_ok: "markup_ok e t \<Longrightarrow> new_paragraph e t st = Inr (Paragraph t st)"
  by (simp add: new_paragraph_def)

lemma build_Inr:
  "build e els f g = Inr doc \<Longrightarrow>
   build_ok e \<and> doc \<noteq> [] \<and> (f = g \<longrightarrow> (\<forall>p \<in> set doc. canvas p = f))"
  by (auto simp add: build_def split: if_splits prod.splits)

lemma build_ok_Inr:
  "build_ok e \<Longrightarrow> logo_exists e \<longrightarrow> logo_loads e \<Longrightarrow> \<exists>doc. build e els f g = Inr doc"
  by (auto simp add: build_def split: prod.splits)

lemma build_fail: "\<not> build_ok e \<Longrightarrow> build e els f g = Inl BuildError"
  by (simp add: build_def)

lemma interview_Inr:
  assumes "generate_interview_invitation_pdf e d idate code url = Inr doc"
  shows "build_ok e \<and>
    (\<forall>k \<in> set [''prenom'', ''nom'', ''email'', ''telephone'', ''adresse'', ''id'']. d k \<noteq> None) \<and>
    (truthy (get_default d ''selected_job_title'' PNone) \<or> d ''job_title'' \<noteq> None) \<and>
    idate \<noteq> None \<and> doc \<noteq> [] \<and>
    (\<forall>p \<in> set doc. canvas p = add_qr_and_code code url)"
  using assms unfolding generate_interview_invitation_pdf_def Let_def and_then_Inr_iff
  apply (elim exE conjE)
  apply (frule build_Inr)
  apply (auto simp add: getitem_def split: option.splits if_splits sum.splits)
  done

lemma interview_success:
  assumes "build_ok e" and "logo_exists e \<longrightarrow> logo_loads e" and "\<forall>s. markup_ok e s"
    and "\<forall>k \<in> set [''prenom'', ''nom'', ''email'', ''telephone'', ''adresse'', ''id'']. d k \<noteq> None"
    and "truthy (get_default d ''selected_job_title'' PNone) \<or> d ''job_title'' \<noteq> None"
    and "idate \<noteq> None"
  shows "\<exists>doc. generate_interview_invitation_pdf e d idate code url = Inr doc"
proof -
  obtain vs where vs:
    "getitems d [''prenom'', ''nom'', ''email'', ''telephone'', ''adresse''] = Inr vs"
    using assms(4)
      getitems_Inr_iff [of d "[''prenom'', ''nom'', ''email'', ''telephone'', ''adresse'']"]
    by auto
  obtain nom where nom: "getitem d ''nom'' = Inr nom"
    using assms(4) getitem_Inr_iff [of d "''nom''"] by auto
  obtain ident where ident: "getitem d ''id'' = Inr ident"
    using assms(4) getitem_Inr_iff [of d "''id''"] by auto
  obtain jt where jt:
    "(if truthy (get_default d ''selected_job_title'' PNone)
      then Inr (get_default d ''selected_job_title'' PNone)
      else getitem d ''job_title'') = Inr jt"
    using assms(5) getitem_Inr_iff [of d "''job_title''"]
    by (cases "truthy (get_default d ''selected_job_title'' PNone)") auto
  obtain raw where raw: "idate = Some raw"
    using assms(6) by auto
  have par: "\<And>t st. new_paragraph e t st = Inr (Paragraph t st)"
    using assms(3) by (simp add: new_paragraph_def)
  show ?thesis
    unfolding generate_interview_invitation_pdf_def Let_def
    by (simp only: vs nom ident jt raw par and_then_def sum.case option.case
          build_ok_Inr [OF assms(1,2)])
qed

lemma interview_build_fail:
  "\<not> build_ok e \<Longrightarrow> \<exists>err. generate_interview_invitation_pdf e d idate code url = Inl err"
  using interview_Inr [of e d idate code url]
  by (cases "generate_interview_invitation_pdf e d idate code url") auto

lemma interview_build_error:
  assumes "\<not> build_ok e" and "\<forall>s. markup_ok e s"
    and "\<forall>k \<in> set [''prenom'', ''nom'', ''email'', ''telephone'', ''adresse'', ''id'']. d k \<noteq> None"
    and "truthy (get_default d ''selected_job_title'' PNone) \<or> d ''job_title'' \<noteq> None"
    and "idate \<noteq> None"
  shows "generate_interview_invitation_pdf e d idate code url = Inl BuildError"
proof -
  obtain vs where vs:
    "getitems d [''prenom'', ''nom'', ''email'', ''telephone'', ''adresse''] = Inr vs"
    using assms(3)
      getitems_Inr_iff [of d "[''prenom'', ''nom'', ''email'', ''telephone'', ''adresse'']"]
    by auto
  obtain nom where nom: "getitem d ''nom'' = Inr nom"
    using assms(3) getitem_Inr_iff [of d "''nom''"] by auto
  obtain ident where ident: "getitem d ''id'' = Inr ident"
    using assms(3) getitem_Inr_iff [of d "''id''"] by auto
  obtain jt where jt:
    "(if truthy (get_default d ''selected_job_title'' PNone)
      then Inr (get_default d ''selected_job_title'' PNone)
      else getitem d ''job_title'') = Inr jt"
    using assms(4) getitem_Inr_iff [of d "''job_title''"]
    by (cases "truthy (get_default d ''selected_job_title'' PNone)") auto
  obtain raw where raw: "idate = Some raw"
    using assms(5) by auto
  have par: "\<And>t st. new_paragraph e t st = Inr (Paragraph t st)"
    using assms(2) by (simp add: new_paragraph_def)
  show ?thesis
    unfolding generate_interview_invitation_pdf_def Let_def
    by (simp only: vs nom ident jt raw par and_then_def sum.case option.case
          build_fail [OF assms(1)])
qed

section \<open>What a phase decision stores\<close>

lemma phase1_selected_result:
  assumes "applications w i = Some r"
  shows "update_phase1_status e w i (u ''selected_for_interview'') idate reason =
     (if \<not> makedirs_ok e
      then (\<lparr>applications = (applications w)(i \<mapsto> selected_row e r idate), files = files w\<rparr>,
            Some OSError)
      else case generate_interview_invitation_pdf (renderer e) (selected_row e r idate) idate
                  (Some (convocation_verification_code i (now e 2))) (base_url_of e) of
             Inl err \<Rightarrow>
               (\<lparr>applications = (applications w)(i \<mapsto> selected_row e r idate),
                 files = files w\<rparr>, Some err)
           | Inr doc \<Rightarrow>
               (\<lparr>applications = (applications w)(i \<mapsto> (selected_row e r idate)
                    (''interview_invitation_pdf'' \<mapsto>
                       PStr (convocation_pdf_filename i (now e 1)))),
                 files = (files w)
                   (u ''static/convocations/'' @ convocation_pdf_filename i (now e 1) \<mapsto> doc)\<rparr>,
                None))"
  using assms
  by (cases "generate_interview_invitation_pdf (renderer e) (selected_row e r idate) idate
                  (Some (convocation_verification_code i (now e 2))) (base_url_of e)")
     (auto simp add: update_phase1_status_def generate_convocation_def Let_def and_then_def
        execute_update_def get_db_connection_def commit_def close_def selected_row_def
        base_url_of_def map_add_def fun_eq_iff)

lemma phase1_rejected_result:
  assumes "applications w i = Some r"
  shows "update_phase1_status e w i (u ''rejected'') idate reason =
     (\<lparr>applications = (applications w)(i \<mapsto> r ++ map_of
              [(''phase1_status'', PStr (u ''rejected'')),
               (''phase1_date'', PStr (fmt_sql (now e 0))),
               (''rejection_reason'', sql_text reason),
               (''workflow_phase'', PStr (u ''completed'')),
               (''status'', PStr (u ''rejet'' @ [233] @ u ''e''))]), files = files w\<rparr>, None)"
  using assms
  by (simp add: update_phase1_status_def Let_def execute_update_def get_db_connection_def
        commit_def close_def u_def)

lemma phase2_result:
  assumes "applications w i = Some r"
  shows "update_phase2_status e w i decision reason =
     (if decision = u ''accepted'' then
       (\<lparr>applications = (applications w)(i \<mapsto> r ++ map_of
              [(''phase2_status'', PStr decision),
               (''phase2_date'', PStr (fmt_sql (now e 0))),
               (''workflow_phase'', PStr (u ''completed'')),
               (''status'', PStr (u ''accept'' @ [233] @ u ''e''))]), files = files w\<rparr>, None)
      else if decision = u ''rejected'' then
       (\<lparr>applications = (applications w)(i \<mapsto> r ++ map_of
              [(''phase2_status'', PStr decision),
               (''phase2_date'', PStr (fmt_sql (now e 0))),
               (''rejection_reason'', sql_text reason),
               (''workflow_phase'', PStr (u ''completed'')),
               (''status'', PStr (u ''rejet'' @ [233] @ u ''e''))]), files = files w\<rparr>, None)
      else (w, None))"
  using assms
  by (simp add: update_phase2_status_def Let_def execute_update_def get_db_connection_def
        commit_def close_def)

lemma phase1_selected_fields:
  assumes "applications w i = Some r"
  shows "field (fst (update_phase1_status e w i (u ''selected_for_interview'') idate reason)) i k =
    (if k = ''phase1_status'' then Some (PStr (u ''selected_for_interview''))
     else if k = ''phase1_date'' then Some (PStr (fmt_sql (now e 0)))
     else if k = ''interview_date'' then Some (sql_text idate)
     else if k = ''workflow_phase'' then Some (PStr (u ''phase1''))
     else if k = ''status'' then Some (PStr (u ''interview programm'' @ [233]))
     else if k = ''interview_invitation_pdf'' \<and>
             snd (update_phase1_status e w i (u ''selected_for_interview'') idate reason) = None
       then Some (PStr (convocation_pdf_filename i (now e 1)))
     else r k)"
  unfolding phase1_selected_result [OF assms]
  by (auto simp add: field_def selected_row_def map_add_def split: sum.splits)

lemma phase1_rejected_fields:
  assumes "applications w i = Some r"
  shows "field (fst (update_phase1_status e w i (u ''rejected'') idate reason)) i k =
    (if k = ''phase1_status'' then Some (PStr (u ''rejected''))
     else if k = ''phase1_date'' then Some (PStr (fmt_sql (now e 0)))
     else if k = ''rejection_reason'' then Some (sql_text reason)
     else if k = ''workflow_phase'' then Some (PStr (u ''completed''))
     else if k = ''status'' then Some (PStr (u ''rejet'' @ [233] @ u ''e''))
     else r k)"
    and "snd (update_phase1_status e w i (u ''rejected'') idate reason) = None"
    and "files (fst (update_phase1_status e w i (u ''rejected'') idate reason)) = files w"
  unfolding phase1_rejected_result [OF assms]
  by (auto simp add: field_def map_add_def)

lemma field_row: "applications w i = Some r \<Longrightarrow> field w i k = r k"
  by (simp add: field_def)

lemma phase1_selected_caught:
  assumes "applications w i = Some r"
  shows "snd (update_phase1_status e w i (u ''selected_for_interview'') idate reason) \<noteq> None \<Longrightarrow>
           files (fst (update_phase1_status e w i (u ''selected_for_interview'') idate reason)) = files w"
    and "\<not> build_ok (renderer e) \<Longrightarrow>
           snd (update_phase1_status e w i (u ''selected_for_interview'') idate reason) \<noteq> None"
proof -
  show "snd (update_phase1_status e w i (u ''selected_for_interview'') idate reason) \<noteq> None \<Longrightarrow>
           files (fst (update_phase1_status e w i (u ''selected_for_interview'') idate reason)) = files w"
    unfolding phase1_selected_result [OF assms] by (auto split: if_splits sum.splits)
  show "\<not> build_ok (renderer e) \<Longrightarrow>
           snd (update_phase1_status e w i (u ''selected_for_interview'') idate reason) \<noteq> None"
    using interview_build_fail [of "renderer e" "selected_row e r idate" idate
        "Some (convocation_verification_code i (now e 2))" "base_url_of e"]
    unfolding phase1_selected_result [OF assms] by (auto split: if_splits sum.splits)
qed

lemma convocation_pdf_filename_nonempty: "convocation_pdf_filename i t \<noteq> []"
  by (simp add: convocation_pdf_filename_def u_def)

section \<open>The concrete inputs, evaluated\<close>

lemma fmt_sql_example: "fmt_sql example_time = u ''2025-10-15 09:30:00''"
  by (simp add: fmt_sql_def example_time_def zpad_def str_nat.simps u_def)

lemma fmt_Ymd_example: "fmt_Ymd example_time = u ''20251015''"
  by (simp add: fmt_Ymd_def example_time_def zpad_def str_nat.simps u_def)

lemma fmt_Ymd_HMS_example: "fmt_Ymd_HMS example_time = u ''20251015_093000''"
  by (simp add: fmt_Ymd_HMS_def fmt_Ymd_def example_time_def zpad_def str_nat.simps u_def)

lemma example_filename: "convocation_pdf_filename 5 example_time = u ''convocation_5_20251015_093000.pdf''"
  by (simp add: convocation_pdf_filename_def fmt_Ymd_HMS_example str_int_def str_nat.simps) (simp add: u_def)

lemma example_code: "convocation_verification_code 5 example_time = u ''CONV-5-20251015''"
  by (simp add: convocation_verification_code_def fmt_Ymd_example str_int_def str_nat.simps) (simp add: u_def)

lemma example_world_row: "applications example_world 5 = Some example_row"
  by (simp add: example_world_def)

lemma example_row_keys:
  "\<forall>k \<in> set [''prenom'', ''nom'', ''email'', ''telephone'', ''adresse'', ''id'']. selected_row e (example_row(k' \<mapsto> v)) idate k \<noteq> None"
  "selected_row e (example_row(k' \<mapsto> v)) idate ''job_title'' \<noteq> None"
  "\<forall>k \<in> set [''prenom'', ''nom'', ''email'', ''telephone'', ''adresse'', ''id'']. selected_row e example_row idate k \<noteq> None"
  "selected_row e example_row idate ''job_title'' \<noteq> None"
  by (simp_all add: selected_row_def example_row_def map_add_def)

lemma example_build_ok: "build_ok (renderer example_env)" "\<not> build_ok (renderer failing_env)"
  "makedirs_ok example_env" "makedirs_ok failing_env"
  "logo_exists (renderer example_env) \<longrightarrow> logo_loads (renderer example_env)"
  "\<forall>s. markup_ok (renderer example_env) s" "\<forall>s. markup_ok (renderer failing_env) s"
  by (simp_all add: example_env_def example_renderer_def failing_env_def)

lemma example_selected_ok:
  "snd (update_phase1_status example_env example_world 5 (u ''selected_for_interview'') (Some d) reason) = None"
proof -
  have "\<exists>doc. generate_interview_invitation_pdf (renderer example_env) (selected_row example_env example_row (Some d)) (Some d)
                  (Some (convocation_verification_code 5 (now example_env 2))) (base_url_of example_env) = Inr doc"
    by (rule interview_success [OF example_build_ok(1,5,6) example_row_keys(3)])
       (simp_all add: example_row_keys(4))
  then show ?thesis
    by (auto simp add: phase1_selected_result [OF example_world_row] example_build_ok)
qed

lemma invited_world_row: "applications invited_world 5 = Some (example_row(''interview_invitation_pdf'' \<mapsto>
                  PStr (u ''convocation_5_20251001_101500.pdf'')))" by (simp add: invited_world_def)

lemma failing_selected:
  "snd (update_phase1_status failing_env invited_world 5 (u ''selected_for_interview'') (Some d) reason) = Some BuildError"
proof -
  have "generate_interview_invitation_pdf (renderer failing_env) (selected_row failing_env (example_row(''interview_invitation_pdf'' \<mapsto>
                  PStr (u ''convocation_5_20251001_101500.pdf''))) (Some d)) (Some d)
                  (Some (convocation_verification_code 5 (now failing_env 2))) (base_url_of failing_env) = Inl BuildError"
    by (rule interview_build_error [OF example_build_ok(2,7) example_row_keys(1)])
       (simp_all add: example_row_keys(2))
  then show ?thesis
    by (simp add: phase1_selected_result [OF invited_world_row] example_build_ok)
qed

lemma failing_selected_example:
  "snd (update_phase1_status failing_env example_world 5 (u ''selected_for_interview'') (Some d) reason) = Some BuildError"
proof -
  have "generate_interview_invitation_pdf (renderer failing_env) (selected_row failing_env example_row (Some d)) (Some d)
                  (Some (convocation_verification_code 5 (now failing_env 2))) (base_url_of failing_env) = Inl BuildError"
    by (rule interview_build_error [OF example_build_ok(2,7) example_row_keys(3)])
       (simp_all add: example_row_keys(4))
  then show ?thesis
    by (simp add: phase1_selected_result [OF example_world_row] example_build_ok)
qed

lemma rejected_world_eq:
  "rejected_world = \<lparr>applications = [5 \<mapsto> example_row ++ map_of
              [(''phase1_status'', PStr (u ''rejected'')),
               (''phase1_date'', PStr (fmt_sql (now example_env 0))),
               (''rejection_reason'', sql_text (Some (u ''profil insuffisant''))),
               (''workflow_phase'', PStr (u ''completed'')),
               (''status'', PStr (u ''rejet'' @ [233] @ u ''e''))]], files = Map.empty\<rparr>"
  by (simp add: rejected_world_def phase1_rejected_result [OF example_world_row]) (simp add: example_world_def)

lemma rejected_world_row:
  "applications rejected_world 5 = Some (example_row ++ map_of
              [(''phase1_status'', PStr (u ''rejected'')),
               (''phase1_date'', PStr (fmt_sql (now example_env 0))),
               (''rejection_reason'', sql_text (Some (u ''profil insuffisant''))),
               (''workflow_phase'', PStr (u ''completed'')),
               (''status'', PStr (u ''rejet'' @ [233] @ u ''e''))])"
  by (simp add: rejected_world_eq)

lemma rejected_world_phase: "field rejected_world 5 ''workflow_phase'' = Some (PStr (u ''completed''))"
  by (simp add: field_def rejected_world_row)

section \<open>Decisions outside the recognised set\<close>

lemma update_phase1_status_other:
  "decision \<noteq> u ''selected_for_interview'' \<Longrightarrow> decision \<noteq> u ''rejected'' \<Longrightarrow>
   update_phase1_status e w app_id decision interview_date rejection_reason = (w, None)"
  by (simp add: update_phase1_status_def get_db_connection_def commit_def close_def)

lemma update_phase2_status_other:
  "decision \<noteq> u ''accepted'' \<Longrightarrow> decision \<noteq> u ''rejected'' \<Longrightarrow>
   update_phase2_status e w app_id decision rejection_reason = (w, None)"
  by (simp add: update_phase2_status_def get_db_connection_def commit_def close_def)

text \<open>
  Claim C10. A phase-1 decision other than \<open>selected_for_interview\<close> and \<open>rejected\<close>,
  and a phase-2 decision other than \<open>accepted\<close> and \<open>rejected\<close>, does nothing: no
  exception is caught or raised, and the stored table (every row, every column) and
  the files are the ones before the call.
\<close>

theorem unrecognised_decision_is_noop:
  "(decision \<noteq> u ''selected_for_interview'' \<and> decision \<noteq> u ''rejected'' \<longrightarrow>
      update_phase1_status e w app_id decision interview_date rejection_reason = (w, None)) \<and>
   (decision \<noteq> u ''accepted'' \<and> decision \<noteq> u ''rejected'' \<longrightarrow>
      update_phase2_status e w app_id decision rejection_reason = (w, None))"
  by (simp add: update_phase1_status_other update_phase2_status_other)

theorem unrecognised_decision_is_noop_witness:
  "u ''on_hold'' \<noteq> u ''selected_for_interview'' \<and> u ''on_hold'' \<noteq> u ''rejected'' \<and>
   u ''on_hold'' \<noteq> u ''accepted'' \<and>
   update_phase1_status example_env example_world 5 (u ''on_hold'')
     (Some (u ''2025-10-20T14:00'')) None = (example_world, None) \<and>
   update_phase2_status example_env example_world 5 (u ''on_hold'') None = (example_world, None)"
  using unrecognised_decision_is_noop
    [of "u ''on_hold''" example_env example_world 5 "Some (u ''2025-10-20T14:00'')" None]
  by (simp add: u_def)

section \<open>Phase 1 decisions\<close>

text \<open>
  Claim C4, as the code has it. For an application that exists,
  \<open>update_phase1_status\<close> with \<open>selected_for_interview\<close> and an interview date stores
  \<open>phase1_status = 'selected_for_interview'\<close>, the given \<open>interview_date\<close>,
  \<open>phase1_date\<close> = the clock reading taken at the start, \<open>workflow_phase = 'phase1'\<close>
  and \<open>status\<close> = the French literal of the source, \<open>interview programm\<close> followed
  by e with an acute accent (code point 233); with \<open>rejected\<close> and a reason it stores \<open>phase1_status = 'rejected'\<close>,
  the reason, \<open>workflow_phase = 'completed'\<close> and \<open>status\<close> = the French literal
  of the source, \<open>rejet\<close>, e with an acute accent, \<open>e\<close>; it catches no
  exception, writes no file and leaves \<open>interview_invitation_pdf\<close> as it was.
\<close>

theorem phase1_decision_fields:
  assumes "applications w app_id = Some r"
  shows "field (fst (update_phase1_status e w app_id (u ''selected_for_interview'') (Some d) reason))
           app_id ''phase1_status'' = Some (PStr (u ''selected_for_interview'')) \<and>
         field (fst (update_phase1_status e w app_id (u ''selected_for_interview'') (Some d) reason))
           app_id ''interview_date'' = Some (PStr d) \<and>
         field (fst (update_phase1_status e w app_id (u ''selected_for_interview'') (Some d) reason))
           app_id ''phase1_date'' = Some (PStr (fmt_sql (now e 0))) \<and>
         field (fst (update_phase1_status e w app_id (u ''selected_for_interview'') (Some d) reason))
           app_id ''workflow_phase'' = Some (PStr (u ''phase1'')) \<and>
         field (fst (update_phase1_status e w app_id (u ''selected_for_interview'') (Some d) reason))
           app_id ''status'' = Some (PStr (u ''interview programm'' @ [233])) \<and>
         field (fst (update_phase1_status e w app_id (u ''rejected'') idate (Some why)))
           app_id ''phase1_status'' = Some (PStr (u ''rejected'')) \<and>
         field (fst (update_phase1_status e w app_id (u ''rejected'') idate (Some why)))
           app_id ''rejection_reason'' = Some (PStr why) \<and>
         field (fst (update_phase1_status e w app_id (u ''rejected'') idate (Some why)))
           app_id ''workflow_phase'' = Some (PStr (u ''completed'')) \<and>
         field (fst (update_phase1_status e w app_id (u ''rejected'') idate (Some why)))
           app_id ''status'' = Some (PStr (u ''rejet'' @ [233] @ u ''e'')) \<and>
         snd (update_phase1_status e w app_id (u ''rejected'') idate (Some why)) = None \<and>
         files (fst (update_phase1_status e w app_id (u ''rejected'') idate (Some why))) = files w \<and>
         field (fst (update_phase1_status e w app_id (u ''rejected'') idate (Some why)))
           app_id ''interview_invitation_pdf'' = field w app_id ''interview_invitation_pdf''"
  by (simp add: phase1_selected_fields [OF assms] phase1_rejected_fields [OF assms]
        field_row [OF assms] sql_text_def)

theorem phase1_decision_fields_witness:
  "applications example_world 5 = Some example_row \<and>
   field (fst (update_phase1_status example_env example_world 5 (u ''selected_for_interview'')
                 (Some (u ''2025-10-20T14:00'')) None)) 5 ''interview_date'' =
     Some (PStr (u ''2025-10-20T14:00'')) \<and>
   field (fst (update_phase1_status example_env example_world 5 (u ''selected_for_interview'')
                 (Some (u ''2025-10-20T14:00'')) None)) 5 ''phase1_date'' =
     Some (PStr (u ''2025-10-15 09:30:00'')) \<and>
   field (fst (update_phase1_status example_env example_world 5 (u ''selected_for_interview'')
                 (Some (u ''2025-10-20T14:00'')) None)) 5 ''workflow_phase'' =
     Some (PStr (u ''phase1'')) \<and>
   field (fst (update_phase1_status example_env example_world 5 (u ''rejected'') None
                 (Some (u ''profil insuffisant'')))) 5 ''rejection_reason'' =
     Some (PStr (u ''profil insuffisant'')) \<and>
   field (fst (update_phase1_status example_env example_world 5 (u ''rejected'') None
                 (Some (u ''profil insuffisant'')))) 5 ''workflow_phase'' =
     Some (PStr (u ''completed'')) \<and>
   field (fst (update_phase1_status example_env example_world 5 (u ''rejected'') None
                 (Some (u ''profil insuffisant'')))) 5 ''interview_invitation_pdf'' = Some PNone"
  using phase1_decision_fields [OF example_world_row, of example_env "u ''2025-10-20T14:00''" None
      None "u ''profil insuffisant''"]
  by (simp add: example_world_row field_row [OF example_world_row] example_row_def)
     (simp add: example_env_def fmt_sql_example)

text \<open>
  The claim as worded names the values \<open>'interview scheduled'\<close> and \<open>'rejected'\<close> for
  \<open>status\<close>; the stored strings are others.
\<close>

theorem phase1_status_literal_counterexample:
  "field (fst (update_phase1_status example_env example_world 5 (u ''selected_for_interview'')
                 (Some (u ''2025-10-20T14:00'')) None)) 5 ''status'' =
     Some (PStr (u ''interview programm'' @ [233])) \<and>
   field (fst (update_phase1_status example_env example_world 5 (u ''selected_for_interview'')
                 (Some (u ''2025-10-20T14:00'')) None)) 5 ''status'' \<noteq>
     Some (PStr (u ''interview scheduled'')) \<and>
   field (fst (update_phase1_status example_env example_world 5 (u ''rejected'') None
                 (Some (u ''insufficient experience'')))) 5 ''status'' =
     Some (PStr (u ''rejet'' @ [233] @ u ''e'')) \<and>
   field (fst (update_phase1_status example_env example_world 5 (u ''rejected'') None
                 (Some (u ''insufficient experience'')))) 5 ''status'' \<noteq>
     Some (PStr (u ''rejected''))"
  by (simp add: phase1_selected_fields [OF example_world_row]
        phase1_rejected_fields [OF example_world_row])
     (simp add: u_def)

section \<open>Decisions on a completed application\<close>

lemma phase2_fields:
  assumes "applications w i = Some r"
  shows "field (fst (update_phase2_status e w i (u ''accepted'') reason)) i k =
    (if k = ''phase2_status'' then Some (PStr (u ''accepted''))
     else if k = ''phase2_date'' then Some (PStr (fmt_sql (now e 0)))
     else if k = ''workflow_phase'' then Some (PStr (u ''completed''))
     else if k = ''status'' then Some (PStr (u ''accept'' @ [233] @ u ''e''))
     else r k)"
    and "field (fst (update_phase2_status e w i (u ''rejected'') reason)) i k =
    (if k = ''phase2_status'' then Some (PStr (u ''rejected''))
     else if k = ''phase2_date'' then Some (PStr (fmt_sql (now e 0)))
     else if k = ''rejection_reason'' then Some (sql_text reason)
     else if k = ''workflow_phase'' then Some (PStr (u ''completed''))
     else if k = ''status'' then Some (PStr (u ''rejet'' @ [233] @ u ''e''))
     else r k)"
proof -
  have ne: "u ''rejected'' \<noteq> u ''accepted''" by (simp add: u_def)
  show "field (fst (update_phase2_status e w i (u ''accepted'') reason)) i k =
    (if k = ''phase2_status'' then Some (PStr (u ''accepted''))
     else if k = ''phase2_date'' then Some (PStr (fmt_sql (now e 0)))
     else if k = ''workflow_phase'' then Some (PStr (u ''completed''))
     else if k = ''status'' then Some (PStr (u ''accept'' @ [233] @ u ''e''))
     else r k)"
    unfolding phase2_result [OF assms] by (auto simp add: field_def map_add_def)
  show "field (fst (update_phase2_status e w i (u ''rejected'') reason)) i k =
    (if k = ''phase2_status'' then Some (PStr (u ''rejected''))
     else if k = ''phase2_date'' then Some (PStr (fmt_sql (now e 0)))
     else if k = ''rejection_reason'' then Some (sql_text reason)
     else if k = ''workflow_phase'' then Some (PStr (u ''completed''))
     else if k = ''status'' then Some (PStr (u ''rejet'' @ [233] @ u ''e''))
     else r k)"
    unfolding phase2_result [OF assms] using ne by (auto simp add: field_def map_add_def)
qed

text \<open>
  Claim C5, as the code has it. Neither function reads \<open>workflow_phase\<close>: on an
  application whose \<open>workflow_phase\<close> is \<open>completed\<close> every recognised decision is
  applied as on any other application. A phase-2 \<open>accepted\<close> overwrites
  \<open>phase2_status\<close>, \<open>phase2_date\<close> and \<open>status\<close>; a phase-2 \<open>rejected\<close> overwrites
  \<open>phase2_status\<close>, \<open>phase2_date\<close>, \<open>rejection_reason\<close> and \<open>status\<close>; a phase-1
  \<open>rejected\<close> overwrites \<open>phase1_status\<close>, \<open>phase1_date\<close>, \<open>rejection_reason\<close> and
  \<open>status\<close>; these three leave \<open>workflow_phase\<close> at \<open>completed\<close> and every other column
  as it was. A phase-1 \<open>selected_for_interview\<close> overwrites \<open>phase1_status\<close>,
  \<open>phase1_date\<close>, \<open>interview_date\<close> and \<open>status\<close> and sets \<open>workflow_phase\<close> back to
  \<open>phase1\<close>. Only a decision outside the recognised ones leaves the record as it was.
\<close>

theorem completed_application_decisions:
  assumes "field w app_id ''workflow_phase'' = Some (PStr (u ''completed''))"
  shows "field (fst (update_phase2_status e w app_id (u ''accepted'') reason)) app_id k =
           (if k = ''phase2_status'' then Some (PStr (u ''accepted''))
            else if k = ''phase2_date'' then Some (PStr (fmt_sql (now e 0)))
            else if k = ''status'' then Some (PStr (u ''accept'' @ [233] @ u ''e''))
            else field w app_id k) \<and>
         field (fst (update_phase2_status e w app_id (u ''rejected'') reason)) app_id k =
           (if k = ''phase2_status'' then Some (PStr (u ''rejected''))
            else if k = ''phase2_date'' then Some (PStr (fmt_sql (now e 0)))
            else if k = ''rejection_reason'' then Some (sql_text reason)
            else if k = ''status'' then Some (PStr (u ''rejet'' @ [233] @ u ''e''))
            else field w app_id k) \<and>
         field (fst (update_phase1_status e w app_id (u ''rejected'') idate reason)) app_id k =
           (if k = ''phase1_status'' then Some (PStr (u ''rejected''))
            else if k = ''phase1_date'' then Some (PStr (fmt_sql (now e 0)))
            else if k = ''rejection_reason'' then Some (sql_text reason)
            else if k = ''status'' then Some (PStr (u ''rejet'' @ [233] @ u ''e''))
            else field w app_id k) \<and>
         field (fst (update_phase1_status e w app_id (u ''selected_for_interview'') idate reason))
           app_id ''phase1_status'' = Some (PStr (u ''selected_for_interview'')) \<and>
         field (fst (update_phase1_status e w app_id (u ''selected_for_interview'') idate reason))
           app_id ''phase1_date'' = Some (PStr (fmt_sql (now e 0))) \<and>
         field (fst (update_phase1_status e w app_id (u ''selected_for_interview'') idate reason))
           app_id ''interview_date'' = Some (sql_text idate) \<and>
         field (fst (update_phase1_status e w app_id (u ''selected_for_interview'') idate reason))
           app_id ''status'' = Some (PStr (u ''interview programm'' @ [233])) \<and>
         field (fst (update_phase1_status e w app_id (u ''selected_for_interview'') idate reason))
           app_id ''workflow_phase'' = Some (PStr (u ''phase1'')) \<and>
         (decision \<noteq> u ''selected_for_interview'' \<and> decision \<noteq> u ''rejected'' \<longrightarrow>
            update_phase1_status e w app_id decision idate reason = (w, None)) \<and>
         (decision \<noteq> u ''accepted'' \<and> decision \<noteq> u ''rejected'' \<longrightarrow>
            update_phase2_status e w app_id decision reason = (w, None))"
proof -
  obtain r where r: "applications w app_id = Some r"
    using assms by (auto simp add: field_def split: option.splits)
  have c: "r ''workflow_phase'' = Some (PStr (u ''completed''))"
    using assms r by (simp add: field_def)
  show ?thesis
    using c
    by (auto simp add: phase2_fields [OF r] phase1_rejected_fields [OF r]
          phase1_selected_fields [OF r] field_row [OF r]
          update_phase1_status_other update_phase2_status_other)
qed

theorem completed_application_decisions_witness:
  "field rejected_world 5 ''workflow_phase'' = Some (PStr (u ''completed'')) \<and>
   field (fst (update_phase2_status example_env rejected_world 5 (u ''accepted'') None)) 5
     ''phase2_status'' = Some (PStr (u ''accepted'')) \<and>
   field (fst (update_phase2_status example_env rejected_world 5 (u ''accepted'') None)) 5
     ''status'' = Some (PStr (u ''accept'' @ [233] @ u ''e'')) \<and>
   field (fst (update_phase2_status example_env rejected_world 5 (u ''accepted'') None)) 5
     ''workflow_phase'' = Some (PStr (u ''completed'')) \<and>
   field (fst (update_phase1_status example_env rejected_world 5 (u ''rejected'')
                 (Some (u ''2025-10-20T14:00'')) None)) 5 ''rejection_reason'' = Some PNone \<and>
   field (fst (update_phase1_status example_env rejected_world 5 (u ''selected_for_interview'')
                 (Some (u ''2025-10-20T14:00'')) None)) 5 ''workflow_phase'' =
     Some (PStr (u ''phase1'')) \<and>
   update_phase2_status example_env rejected_world 5 (u ''on_hold'') None = (rejected_world, None)"
proof -
  have ne: "u ''on_hold'' \<noteq> u ''accepted''" "u ''on_hold'' \<noteq> u ''rejected''"
    by (simp_all add: u_def)
  note t = completed_application_decisions [OF rejected_world_phase, of example_env None _
      "Some (u ''2025-10-20T14:00'')" "u ''on_hold''"]
  from t [of "''phase2_status''"] t [of "''status''"] t [of "''workflow_phase''"]
    t [of "''rejection_reason''"] ne
  show ?thesis
    by (simp add: rejected_world_phase sql_text_def)
qed

text \<open>
  A rejected application is selected for an interview afterwards and leaves the
  completed phase; a phase-2 acceptance of the rejected application overwrites its
  status.
\<close>

theorem completed_is_not_final_counterexample:
  "field rejected_world 5 ''workflow_phase'' = Some (PStr (u ''completed'')) \<and>
   field (fst (update_phase1_status example_env rejected_world 5 (u ''selected_for_interview'')
                 (Some (u ''2025-10-20T14:00'')) None)) 5 ''workflow_phase'' =
     Some (PStr (u ''phase1'')) \<and>
   field (fst (update_phase1_status example_env rejected_world 5 (u ''selected_for_interview'')
                 (Some (u ''2025-10-20T14:00'')) None)) 5 ''workflow_phase'' \<noteq>
     field rejected_world 5 ''workflow_phase'' \<and>
   field (fst (update_phase2_status example_env rejected_world 5 (u ''accepted'') None)) 5 ''status'' \<noteq>
     field rejected_world 5 ''status''"
  by (simp add: rejected_world_phase phase1_selected_fields [OF rejected_world_row]
         phase2_result [OF rejected_world_row])
     (simp add: field_def rejected_world_row u_def)

section \<open>A failing renderer\<close>

text \<open>
  Claim C3, as the code has it. For an application that exists and the decision
  \<open>selected_for_interview\<close>: a PDF library that fails makes the \<open>try\<close> block raise, and
  the exception is caught (the second component of the result); whether or not an
  exception was caught, \<open>phase1_status\<close>, \<open>phase1_date\<close>, \<open>interview_date\<close>,
  \<open>workflow_phase\<close> and \<open>status\<close> are committed. When an exception was caught,
  \<open>interview_invitation_pdf\<close> and the files are what they were before the call;
  when none was, \<open>interview_invitation_pdf\<close> holds the new, non-empty file name.
\<close>

theorem render_failure_keeps_transition:
  assumes "applications w app_id = Some r"
  shows "(\<not> build_ok (renderer e) \<longrightarrow>
            snd (update_phase1_status e w app_id (u ''selected_for_interview'') idate reason) \<noteq> None) \<and>
         field (fst (update_phase1_status e w app_id (u ''selected_for_interview'') idate reason))
           app_id ''phase1_status'' = Some (PStr (u ''selected_for_interview'')) \<and>
         field (fst (update_phase1_status e w app_id (u ''selected_for_interview'') idate reason))
           app_id ''phase1_date'' = Some (PStr (fmt_sql (now e 0))) \<and>
         field (fst (update_phase1_status e w app_id (u ''selected_for_interview'') idate reason))
           app_id ''interview_date'' = Some (sql_text idate) \<and>
         field (fst (update_phase1_status e w app_id (u ''selected_for_interview'') idate reason))
           app_id ''workflow_phase'' = Some (PStr (u ''phase1'')) \<and>
         field (fst (update_phase1_status e w app_id (u ''selected_for_interview'') idate reason))
           app_id ''status'' = Some (PStr (u ''interview programm'' @ [233])) \<and>
         (snd (update_phase1_status e w app_id (u ''selected_for_interview'') idate reason) \<noteq> None \<longrightarrow>
            field (fst (update_phase1_status e w app_id (u ''selected_for_interview'') idate reason))
              app_id ''interview_invitation_pdf'' = field w app_id ''interview_invitation_pdf'' \<and>
            files (fst (update_phase1_status e w app_id (u ''selected_for_interview'') idate reason)) =
              files w) \<and>
         (snd (update_phase1_status e w app_id (u ''selected_for_interview'') idate reason) = None \<longrightarrow>
            field (fst (update_phase1_status e w app_id (u ''selected_for_interview'') idate reason))
              app_id ''interview_invitation_pdf'' =
              Some (PStr (convocation_pdf_filename app_id (now e 1))) \<and>
            truthy (PStr (convocation_pdf_filename app_id (now e 1))))"
  using phase1_selected_caught [OF assms, of e idate reason]
  by (simp add: phase1_selected_fields [OF assms] field_row [OF assms]
        convocation_pdf_filename_nonempty)

theorem render_failure_keeps_transition_witness:
  "applications example_world 5 = Some example_row \<and>
   \<not> build_ok (renderer failing_env) \<and>
   snd (update_phase1_status failing_env example_world 5 (u ''selected_for_interview'')
          (Some (u ''2025-10-20T14:00'')) None) = Some BuildError \<and>
   field (fst (update_phase1_status failing_env example_world 5 (u ''selected_for_interview'')
                 (Some (u ''2025-10-20T14:00'')) None)) 5 ''status'' =
     Some (PStr (u ''interview programm'' @ [233])) \<and>
   field (fst (update_phase1_status failing_env example_world 5 (u ''selected_for_interview'')
                 (Some (u ''2025-10-20T14:00'')) None)) 5 ''interview_invitation_pdf'' = Some PNone \<and>
   snd (update_phase1_status example_env example_world 5 (u ''selected_for_interview'')
          (Some (u ''2025-10-20T14:00'')) None) = None \<and>
   field (fst (update_phase1_status example_env example_world 5 (u ''selected_for_interview'')
                 (Some (u ''2025-10-20T14:00'')) None)) 5 ''interview_invitation_pdf'' =
     Some (PStr (u ''convocation_5_20251015_093000.pdf''))"
  using render_failure_keeps_transition [OF example_world_row, of failing_env
      "Some (u ''2025-10-20T14:00'')" None]
    render_failure_keeps_transition [OF example_world_row, of example_env
      "Some (u ''2025-10-20T14:00'')" None]
  by (simp add: example_world_row example_build_ok failing_selected_example example_selected_ok
        field_row [OF example_world_row])
     (simp add: example_row_def example_env_def example_filename)

text \<open>
  The field is not empty in every failure case: the application was invited before,
  the second rendering fails, and the file name of the first invitation stays.
\<close>

theorem failed_render_keeps_old_pdf_counterexample:
  "snd (update_phase1_status failing_env invited_world 5 (u ''selected_for_interview'')
          (Some (u ''2025-10-20T14:00'')) None) = Some BuildError \<and>
   field (fst (update_phase1_status failing_env invited_world 5 (u ''selected_for_interview'')
                 (Some (u ''2025-10-20T14:00'')) None)) 5 ''interview_invitation_pdf'' =
     Some (PStr (u ''convocation_5_20251001_101500.pdf'')) \<and>
   truthy (PStr (u ''convocation_5_20251001_101500.pdf''))"
  by (simp add: failing_selected phase1_selected_fields [OF invited_world_row])
     (simp add: u_def)

section \<open>The shape of a generated code\<close>

lemma hex_digit_lower: "n < 16 \<Longrightarrow> hex_lower (hex_digit n)"
  by (auto simp add: hex_digit_def hex_lower_def)

lemma mask4: "(15 :: 'a::len word) = mask 4"
  by (simp add: mask_eq_exp_minus_1)

lemma unat_and_15: "unat (x AND 0xF) < 16" for x :: "'a::len word"
proof -
  have "x AND 0xF = take_bit 4 x"
    by (simp only: mask4 take_bit_eq_mask)
  then have "unat (x AND 0xF) = take_bit 4 (unat x)"
    by (simp add: unsigned_take_bit_eq)
  also have "\<dots> < 2 ^ 4" by (rule take_bit_nat_less_exp)
  finally show ?thesis by simp
qed

lemma unat_drop_bit_4: "unat (drop_bit 4 x) < 16" for x :: byte
proof -
  have "unat x < 2 ^ 8" using unsigned_less [of x, where ?'a = nat] by simp
  then have "unat x div 2 ^ 4 < 16" by simp
  moreover have "unat (drop_bit 4 x) = drop_bit 4 (unat x)" by (rule unat_drop_bit_eq)
  moreover have "drop_bit 4 (unat x) = unat x div 2 ^ 4" by (rule drop_bit_eq_div)
  ultimately show ?thesis by (simp only:)
qed

lemma hex32_shape: "length (hex32 x) = 8" "c \<in> set (hex32 x) \<Longrightarrow> hex_lower c"
  by (auto simp add: hex32_def hex_digit_lower unat_and_15)

lemma hex8_shape: "c \<in> set (hex8 x) \<Longrightarrow> hex_lower c"
  by (auto simp add: hex8_def hex_digit_lower unat_and_15 unat_drop_bit_4)

lemma hexdigest_length: "length (hexdigest s) = 64"
  by (simp add: hexdigest_def hex32_shape split: prod.splits)

lemma hexdigest_chars: "c \<in> set (hexdigest s) \<Longrightarrow> hex_lower c"
  by (auto simp add: hexdigest_def hex32_shape split: prod.splits)

lemma upper_hex: "hex_lower c \<Longrightarrow> upper_alnum (if 97 \<le> c \<and> c \<le> 122 then c - 32 else c)"
  by (auto simp add: hex_lower_def upper_alnum_def)

lemma generate_verification_code_shape:
  assumes "generate_verification_code t random i ty = Inr code"
  shows "length code = 16 \<and> list_all upper_alnum code"
proof -
  from assms obtain bytes where code: "code = upper (take 16 (hexdigest (sha256 bytes)))"
    by (auto simp add: generate_verification_code_def Let_def and_then_Inr_iff)
  have "length code = 16" by (simp add: code upper_def hexdigest_length)
  moreover have "list_all upper_alnum code"
  proof -
    have "\<forall>c \<in> set (take 16 (hexdigest (sha256 bytes))). hex_lower c"
      using hexdigest_chars by (blast dest: in_set_takeD)
    then show ?thesis
      unfolding code upper_def list_all_iff
      by (auto simp add: hex_lower_def upper_alnum_def)
  qed
  ultimately show ?thesis by simp
qed

lemma str_nat_digits: "c \<in> set (str_nat n) \<Longrightarrow> 48 \<le> c \<and> c \<le> 57"
proof (induction n rule: str_nat.induct)
  case (1 n)
  then show ?case
    by (subst (asm) (2) str_nat.simps) (auto split: if_splits)
qed

lemma str_int_ascii: "c \<in> set (str_int i) \<Longrightarrow> c < 128"
  by (auto simp add: str_int_def dest: str_nat_digits split: if_splits)

lemma zpad_ascii: "c \<in> set (zpad w n) \<Longrightarrow> c < 128"
  by (auto simp add: zpad_def dest: str_nat_digits)

lemma u_ascii: "c \<in> set (u s) \<Longrightarrow> c < 256"
  by (auto simp add: u_def)

lemma isoformat_ascii: "c \<in> set (isoformat t) \<Longrightarrow> c < 128"
  by (auto simp add: isoformat_def u_def dest: zpad_ascii split: if_splits)

lemma token_hex_ascii: "c \<in> set (token_hex random n) \<Longrightarrow> c < 128"
  by (auto simp add: token_hex_def hex_lower_def dest!: hex8_shape)

lemma encode_ok: "\<forall>c \<in> set s. c < 0xD800 \<Longrightarrow> \<exists>bytes. encode s = Inr bytes"
  by (auto simp add: encode_def)

lemma generate_verification_code_ok:
  assumes "\<forall>c \<in> set ty. c < 0xD800"
  shows "\<exists>code. generate_verification_code t random i ty = Inr code"
proof -
  have "\<forall>c \<in> set (str_int i @ u ''-'' @ ty @ u ''-'' @ isoformat t @ u ''-'' @ token_hex random 16). c < 0xD800"
    using assms by (auto simp add: u_def dest: str_int_ascii isoformat_ascii token_hex_ascii)
  from encode_ok [OF this] show ?thesis
    by (auto simp add: generate_verification_code_def Let_def and_then_def)
qed

section \<open>File names of stored documents\<close>

lemma sub_runs_chars:
  "c \<in> set (sub_runs P rep s) \<Longrightarrow> c \<in> set rep \<or> (c \<in> set s \<and> \<not> P c)"
proof (induction P rep s rule: sub_runs.induct)
  case (1 P rep)
  then show ?case by simp
next
  case (2 P rep x xs)
  then show ?case
    by (auto split: if_splits dest: set_dropWhileD)
qed

lemma clean_name_chars:
  assumes "c \<in> set (clean_name U name)"
  shows "re_w U c \<and> c \<noteq> 45 \<and> \<not> re_s U c \<and> (c = 95 \<or> c \<in> set name)"
proof -
  from assms have "c \<in> set (u ''_'') \<or>
      (c \<in> set (filter (\<lambda>c. re_w U c \<or> re_s U c \<or> c = 45) name) \<and> \<not> (c = 45 \<or> re_s U c))"
    unfolding clean_name_def Let_def by (rule sub_runs_chars)
  then show ?thesis
    by (auto simp add: u_def re_w_def re_s_def)
qed

lemma re_w_ascii: "c < 128 \<Longrightarrow> re_w U c \<Longrightarrow> ascii_name_char c"
  by (auto simp add: re_w_def ascii_name_char_def)

text \<open>
  Claim C9, as the code has it. Both file-name functions return
  \<open>{label}_{clean}_{applicationId}_{yyyyMMdd_HHmmss}.pdf\<close> with the label
  \<open>Convocation_Entretien\<close> or \<open>Lettre_Acceptation\<close>; every character of the cleaned
  name is a word character of the Unicode-aware \<open>\w\<close> (alphanumeric or underscore),
  never a hyphen or white space; when the candidate name is ASCII, every character of
  the cleaned name lies in \<open>[A-Za-z0-9_-]\<close>.
\<close>

theorem filename_shape:
  "generate_interview_invitation_filename U t name app_id =
     u ''Convocation_Entretien_'' @ clean_name U name @ u ''_'' @ str_int app_id @
     u ''_'' @ fmt_Ymd_HMS t @ u ''.pdf'' \<and>
   generate_acceptance_letter_filename U t name app_id =
     u ''Lettre_Acceptation_'' @ clean_name U name @ u ''_'' @ str_int app_id @
     u ''_'' @ fmt_Ymd_HMS t @ u ''.pdf'' \<and>
   (\<forall>c \<in> set (clean_name U name). re_w U c \<and> c \<noteq> 45 \<and> \<not> re_s U c) \<and>
   ((\<forall>c \<in> set name. c < 128) \<longrightarrow>
      (\<forall>c \<in> set (clean_name U name). ascii_name_char c))"
proof -
  have "\<forall>c \<in> set (clean_name U name). re_w U c \<and> c \<noteq> 45 \<and> \<not> re_s U c"
    using clean_name_chars by blast
  moreover have "(\<forall>c \<in> set name. c < 128) \<longrightarrow>
      (\<forall>c \<in> set (clean_name U name). ascii_name_char c)"
  proof (intro impI ballI)
    fix c assume a: "\<forall>c \<in> set name. c < 128" and c: "c \<in> set (clean_name U name)"
    from clean_name_chars [OF c] have "re_w U c" and "c = 95 \<or> c \<in> set name" by simp_all
    then show "ascii_name_char c" using a re_w_ascii [of c U] by auto
  qed
  ultimately show ?thesis
    by (simp add: generate_interview_invitation_filename_def generate_acceptance_letter_filename_def)
qed

lemma clean_amina: "clean_name latin1_tables (u ''Amina Hassan'') = u ''Amina_Hassan''"
  by (simp add: clean_name_def u_def re_w_def re_s_def ascii_alnum_def)

lemma clean_jose: "clean_name latin1_tables (u ''Jos'' @ [233]) = u ''Jos'' @ [233]"
  by (simp add: clean_name_def u_def re_w_def re_s_def ascii_alnum_def latin1_tables_def)

lemma str_int_5: "str_int 5 = u ''5''"
  by (simp add: str_int_def str_nat.simps u_def)

theorem filename_shape_witness:
  "generate_interview_invitation_filename latin1_tables example_time (u ''Amina Hassan'') 5 =
     u ''Convocation_Entretien_Amina_Hassan_5_20251015_093000.pdf'' \<and>
   generate_acceptance_letter_filename latin1_tables example_time (u ''Amina Hassan'') 5 =
     u ''Lettre_Acceptation_Amina_Hassan_5_20251015_093000.pdf'' \<and>
   list_all (\<lambda>c. c < 128) (u ''Amina Hassan'') \<and>
   list_all ascii_name_char (clean_name latin1_tables (u ''Amina Hassan''))"
  using filename_shape [of latin1_tables example_time "u ''Amina Hassan''" 5]
  by (simp add: clean_amina str_int_5 fmt_Ymd_HMS_example list_all_iff) (simp add: u_def)

text \<open>
  A name with an accented letter keeps it: the letter is alphanumeric for \<open>\w\<close> and
  lies outside \<open>[A-Za-z0-9_-]\<close>.
\<close>

theorem accented_name_counterexample:
  "generate_interview_invitation_filename latin1_tables example_time (u ''Jos'' @ [233]) 5 =
     u ''Convocation_Entretien_Jos'' @ [233] @ u ''_5_20251015_093000.pdf'' \<and>
   clean_name latin1_tables (u ''Jos'' @ [233]) = u ''Jos'' @ [233] \<and>
   \<not> list_all ascii_name_char (clean_name latin1_tables (u ''Jos'' @ [233]))"
  by (simp add: generate_interview_invitation_filename_def clean_jose str_int_5 fmt_Ymd_HMS_example)
     (simp add: u_def ascii_name_char_def ascii_alnum_def)

section \<open>Issue and lookup\<close>

lemma find_append_last:
  "\<forall>y \<in> set xs. \<not> P y \<Longrightarrow> P x \<Longrightarrow> find P (xs @ [x]) = Some x"
  by (induction xs) simp_all

lemma lookup_absent: "code \<notin> set (map verification_code reg) \<Longrightarrow> lookup reg code = Inl NotFound"
  by (auto simp add: lookup_def find_None_iff split: option.splits)

text \<open>
  Claim C2. After a successful \<open>issue\<close>, \<open>lookup\<close> of the issued code returns the
  record just stored, whose application id, document type, candidate name, job title,
  issue date and document handle are the ones passed; the match is equality of
  strings, so any string that is not a stored code (a never issued one, or an issued
  one in another case) gives \<open>NotFound\<close>.
\<close>

theorem issued_code_is_found:
  assumes "issue t random reg a ty n j d h = Inr (r, reg')"
  shows "lookup reg' (verification_code r) = Inr r \<and>
         application_id r = a \<and> document_type r = ty \<and> candidate_name r = n \<and>
         job_title r = j \<and> issue_date r = d \<and> pdf_path r = h \<and>
         (\<forall>c. c \<notin> set (map verification_code reg') \<longrightarrow> lookup reg' c = Inl NotFound)"
proof -
  from assms obtain code where
    code: "code \<notin> set (map verification_code reg)" and
    r: "r = \<lparr>verification_code = code, application_id = a, document_type = ty,
             candidate_name = n, job_title = j, issue_date = d, pdf_path = h,
             status = u ''valide''\<rparr>" and
    reg': "reg' = reg @ [r]"
    by (auto simp add: issue_def Let_def split: sum.splits if_splits)
  have "find (\<lambda>x. verification_code x = verification_code r) (reg @ [r]) = Some r"
    using code r by (intro find_append_last) auto
  then have "lookup reg' (verification_code r) = Inr r"
    by (simp add: lookup_def reg')
  then show ?thesis
    using r lookup_absent by auto
qed

lemma ascii_type: "\<forall>c \<in> set (u ''interview_invitation''). c < 0xD800"
  by (simp add: u_def)

theorem issued_code_is_found_witness:
  "\<not> isl (issue example_time (\<lambda>k. 0) [] 5 (u ''interview_invitation'') (u ''Amina Hassan'')
            (u ''Comptable'') (u ''2025-10-15'') (u ''convocation_5_20251015_093000.pdf'')) \<and>
   lookup (snd (projr (issue example_time (\<lambda>k. 0) [] 5 (u ''interview_invitation'')
             (u ''Amina Hassan'') (u ''Comptable'') (u ''2025-10-15'')
             (u ''convocation_5_20251015_093000.pdf''))))
     (verification_code (fst (projr (issue example_time (\<lambda>k. 0) [] 5 (u ''interview_invitation'')
             (u ''Amina Hassan'') (u ''Comptable'') (u ''2025-10-15'')
             (u ''convocation_5_20251015_093000.pdf''))))) =
     Inr (fst (projr (issue example_time (\<lambda>k. 0) [] 5 (u ''interview_invitation'')
             (u ''Amina Hassan'') (u ''Comptable'') (u ''2025-10-15'')
             (u ''convocation_5_20251015_093000.pdf'')))) \<and>
   candidate_name (fst (projr (issue example_time (\<lambda>k. 0) [] 5 (u ''interview_invitation'')
             (u ''Amina Hassan'') (u ''Comptable'') (u ''2025-10-15'')
             (u ''convocation_5_20251015_093000.pdf'')))) = u ''Amina Hassan'' \<and>
   lookup (snd (projr (issue example_time (\<lambda>k. 0) [] 5 (u ''interview_invitation'')
             (u ''Amina Hassan'') (u ''Comptable'') (u ''2025-10-15'')
             (u ''convocation_5_20251015_093000.pdf'')))) (u ''CONV-5-20251015'') = Inl NotFound"
proof -
  let ?res = "issue example_time (\<lambda>k. 0) [] 5 (u ''interview_invitation'') (u ''Amina Hassan'')
            (u ''Comptable'') (u ''2025-10-15'') (u ''convocation_5_20251015_093000.pdf'')"
  obtain code where code:
    "generate_verification_code example_time (\<lambda>k. 0) 5 (u ''interview_invitation'') = Inr code"
    using generate_verification_code_ok [OF ascii_type] by blast
  then obtain r reg' where res: "?res = Inr (r, reg')" and reg': "reg' = [r]" and
     rc: "verification_code r = code"
    by (simp add: issue_def Let_def)
  have "length code = 16"
    using generate_verification_code_shape [OF code] by simp
  then have "code \<noteq> u ''CONV-5-20251015''" by (auto simp add: u_def)
  then have "u ''CONV-5-20251015'' \<notin> set (map verification_code reg')"
    by (simp add: reg' rc)
  with issued_code_is_found [OF res] show ?thesis
    by (simp add: res)
qed

section \<open>Missing candidate fields\<close>

lemma build_single_page:
  "layout e = (\<lambda>es. (es, [])) \<Longrightarrow> build e els f g = Inr doc \<Longrightarrow>
   doc = [\<lparr>canvas = f, content = els\<rparr>]"
  by (auto simp add: build_def split: if_splits)

lemma interview_single_page:
  assumes "layout e = (\<lambda>es. (es, []))"
    and "generate_interview_invitation_pdf e d idate code url = Inr doc"
  shows "map canvas doc = [add_qr_and_code code url]"
  using assms(2) unfolding generate_interview_invitation_pdf_def Let_def and_then_Inr_iff
  by (elim exE conjE) (auto dest!: build_single_page [OF assms(1)])

lemma acceptance_Inr:
  assumes "generate_acceptance_letter_pdf e d code url = Inr doc"
  shows "build_ok e \<and> d ''id'' \<noteq> None \<and> doc \<noteq> [] \<and>
         (\<forall>p \<in> set doc. canvas p = add_qr_and_code code url)"
  using assms unfolding generate_acceptance_letter_pdf_def Let_def and_then_Inr_iff
  by (elim exE conjE) (auto dest: build_Inr simp add: getitem_def split: option.splits)

lemma acceptance_single_page:
  assumes "layout e = (\<lambda>es. (es, []))"
    and "generate_acceptance_letter_pdf e d code url = Inr doc"
  shows "map canvas doc = [add_qr_and_code code url]"
  using assms(2) unfolding generate_acceptance_letter_pdf_def Let_def and_then_Inr_iff
  by (elim exE conjE) (auto dest!: build_single_page [OF assms(1)])

lemma acceptance_success:
  assumes "build_ok e" and "logo_exists e \<longrightarrow> logo_loads e" and "\<forall>s. markup_ok e s"
    and "d ''id'' \<noteq> None"
  shows "\<exists>doc. generate_acceptance_letter_pdf e d code url = Inr doc"
proof -
  obtain ident where ident: "getitem d ''id'' = Inr ident"
    using assms(4) getitem_Inr_iff [of d "''id''"] by auto
  have par: "\<And>t st. new_paragraph e t st = Inr (Paragraph t st)"
    using assms(3) by (simp add: new_paragraph_def)
  show ?thesis
    unfolding generate_acceptance_letter_pdf_def Let_def
    by (simp only: ident par and_then_def sum.case build_ok_Inr [OF assms(1,2)])
qed

lemma interview_missing_field:
  assumes "k \<in> set [''prenom'', ''nom'', ''email'', ''telephone'', ''adresse'']" and "d k = None"
  shows "\<exists>k' \<in> set [''prenom'', ''nom'', ''email'', ''telephone'', ''adresse''].
           d k' = None \<and> generate_interview_invitation_pdf e d idate code url = Inl (KeyError k')"
proof -
  have "\<not> (\<exists>vs. getitems d [''prenom'', ''nom'', ''email'', ''telephone'', ''adresse''] = Inr vs)"
    using assms unfolding getitems_Inr_iff by blast
  then obtain err where err:
    "getitems d [''prenom'', ''nom'', ''email'', ''telephone'', ''adresse''] = Inl err"
    by (cases "getitems d [''prenom'', ''nom'', ''email'', ''telephone'', ''adresse'']") auto
  from getitems_Inl [OF err] obtain k' where
    k': "k' \<in> set [''prenom'', ''nom'', ''email'', ''telephone'', ''adresse'']" "d k' = None"
      "err = KeyError k'"
    by blast
  have "generate_interview_invitation_pdf e d idate code url = Inl err"
    unfolding generate_interview_invitation_pdf_def Let_def
    by (simp only: err and_then_def sum.case)
  with k' show ?thesis by blast
qed

lemma example_renderer_facts:
  "build_ok example_renderer" "layout example_renderer = (\<lambda>es. (es, []))"
  "logo_exists example_renderer \<longrightarrow> logo_loads example_renderer"
  "\<forall>s. markup_ok example_renderer s"
  by (simp_all add: example_renderer_def)

text \<open>
  Claim C7, at the input where the code departs from it. The dictionary holds the
  id and no candidate field. The interview invitation fails on it with the
  \<open>KeyError\<close> of \<open>prenom\<close>, as the claim says a renderer must. The acceptance letter
  is rendered: its recipient block has an empty name, the address \<open>Djibouti\<close>, an
  empty email and an empty phone number, its object line names the post by the
  default text, and its salutation has an empty name.
\<close>

theorem acceptance_letter_renders_blank_fields:
  "generate_interview_invitation_pdf example_renderer (map_of [(''id'', PInt 5)])
     (Some (u ''2025-10-20T14:00'')) None (u ''http://localhost:5000'') =
     Inl (KeyError ''prenom'') \<and>
   \<not> isl (generate_acceptance_letter_pdf example_renderer (map_of [(''id'', PInt 5)]) None
           (u ''http://localhost:5000'')) \<and>
   Paragraph
     (nl @ u ''<b>'' @ [192] @ u '' l'' @ [39] @ u ''attention de :</b><br/>'' @
      nl @ [] @ u '' '' @ [] @ u ''<br/>'' @
      nl @ u ''Djibouti'' @ u ''<br/>'' @
      nl @ u ''Email : '' @ [] @ u ''<br/>'' @
      nl @ u ''T'' @ [233] @ u ''l : '' @ [] @ nl) ''Recipient'' \<in>
     set (content (hd (projr (generate_acceptance_letter_pdf example_renderer
            (map_of [(''id'', PInt 5)]) None (u ''http://localhost:5000''))))) \<and>
   Paragraph
     (u ''<b>Objet : Acceptation de votre candidature - '' @ u ''le poste propos'' @ [233] @
      u ''</b>'') ''Object'' \<in>
     set (content (hd (projr (generate_acceptance_letter_pdf example_renderer
            (map_of [(''id'', PInt 5)]) None (u ''http://localhost:5000''))))) \<and>
   Paragraph (u ''Madame, Monsieur '' @ [] @ u '','') ''BodyText'' \<in>
     set (content (hd (projr (generate_acceptance_letter_pdf example_renderer
            (map_of [(''id'', PInt 5)]) None (u ''http://localhost:5000'')))))"
proof -
  have 1: "generate_interview_invitation_pdf example_renderer (map_of [(''id'', PInt 5)])
     (Some (u ''2025-10-20T14:00'')) None (u ''http://localhost:5000'') =
     Inl (KeyError ''prenom'')"
    by (simp add: generate_interview_invitation_pdf_def Let_def and_then_def getitem_def)
  have 2: "\<not> isl (generate_acceptance_letter_pdf example_renderer (map_of [(''id'', PInt 5)]) None
           (u ''http://localhost:5000'')) \<and>
   Paragraph
     (nl @ u ''<b>'' @ [192] @ u '' l'' @ [39] @ u ''attention de :</b><br/>'' @
      nl @ [] @ u '' '' @ [] @ u ''<br/>'' @
      nl @ u ''Djibouti'' @ u ''<br/>'' @
      nl @ u ''Email : '' @ [] @ u ''<br/>'' @
      nl @ u ''T'' @ [233] @ u ''l : '' @ [] @ nl) ''Recipient'' \<in>
     set (content (hd (projr (generate_acceptance_letter_pdf example_renderer
            (map_of [(''id'', PInt 5)]) None (u ''http://localhost:5000''))))) \<and>
   Paragraph
     (u ''<b>Objet : Acceptation de votre candidature - '' @ u ''le poste propos'' @ [233] @
      u ''</b>'') ''Object'' \<in>
     set (content (hd (projr (generate_acceptance_letter_pdf example_renderer
            (map_of [(''id'', PInt 5)]) None (u ''http://localhost:5000''))))) \<and>
   Paragraph (u ''Madame, Monsieur '' @ [] @ u '','') ''BodyText'' \<in>
     set (content (hd (projr (generate_acceptance_letter_pdf example_renderer
            (map_of [(''id'', PInt 5)]) None (u ''http://localhost:5000'')))))"
    by (simp add: generate_acceptance_letter_pdf_def Let_def and_then_def getitem_def
          get_default_def new_paragraph_def build_def example_renderer_def)
  from 1 2 show ?thesis by simp
qed

section \<open>The verification mark on the pages\<close>

lemma example_interview_doc:
  "\<exists>doc. generate_interview_invitation_pdf example_renderer example_row
     (Some (u ''2025-10-20T14:00'')) code url = Inr doc \<and>
     map canvas doc = [add_qr_and_code code url]"
proof -
  obtain doc where doc: "generate_interview_invitation_pdf example_renderer example_row
     (Some (u ''2025-10-20T14:00'')) code url = Inr doc"
    using interview_success [OF example_renderer_facts(1,3,4), of example_row
        "Some (u ''2025-10-20T14:00'')" code url]
    by (auto simp add: example_row_def)
  from interview_single_page [OF example_renderer_facts(2) doc] doc show ?thesis by auto
qed

lemma example_acceptance_doc:
  "\<exists>doc. generate_acceptance_letter_pdf example_renderer example_row code url = Inr doc \<and>
     map canvas doc = [add_qr_and_code code url]"
proof -
  obtain doc where doc: "generate_acceptance_letter_pdf example_renderer example_row code url = Inr doc"
    using acceptance_success [OF example_renderer_facts(1,3,4), of example_row code url]
    by (auto simp add: example_row_def)
  from acceptance_single_page [OF example_renderer_facts(2) doc] doc show ?thesis by auto
qed

text \<open>
  Claim C8, as the code has it. Whichever renderer returns a document, the document
  has at least one page. When a non-empty verification code was passed, the canvas
  of every page holds the QR image of \<open>{base_url}/verify/{code}\<close> at its fixed place
  (12 mm from the left, 40 mm below the top edge of the A4 page, 30 mm wide and
  high) and the text \<open>Code de verification : {code}\<close> centred at 105 mm, 17 mm, and
  nothing else; when no code or the empty string was passed, the canvas of every
  page is empty.
\<close>

theorem verification_mark_on_every_page:
  assumes "generate_interview_invitation_pdf e d idate code url = Inr doc \<or>
           generate_acceptance_letter_pdf e d code url = Inr doc"
  shows "doc \<noteq> [] \<and>
         (\<forall>c. code = Some c \<and> c \<noteq> [] \<longrightarrow>
            (\<forall>p \<in> set doc. canvas p =
               [DrawImage (url @ u ''/verify/'' @ c) 12 257 30 30,
                DrawCentredString 105 17 (u ''Code de v'' @ [233] @ u ''rification : '' @ c)])) \<and>
         (code = None \<or> code = Some [] \<longrightarrow> (\<forall>p \<in> set doc. canvas p = []))"
proof -
  have "doc \<noteq> [] \<and> (\<forall>p \<in> set doc. canvas p = add_qr_and_code code url)"
    using assms interview_Inr [of e d idate code url doc] acceptance_Inr [of e d code url doc]
    by blast
  then show ?thesis
    by (auto simp add: add_qr_and_code_def)
qed

theorem verification_mark_on_every_page_witness:
  "map canvas (projr (generate_interview_invitation_pdf example_renderer example_row
       (Some (u ''2025-10-20T14:00'')) (Some (u ''1940E7FDAA265529''))
       (u ''https://rh.salsabil.dj''))) =
     [[DrawImage (u ''https://rh.salsabil.dj/verify/1940E7FDAA265529'') 12 257 30 30,
       DrawCentredString 105 17
         (u ''Code de v'' @ [233] @ u ''rification : 1940E7FDAA265529'')]] \<and>
   map canvas (projr (generate_acceptance_letter_pdf example_renderer example_row
       (Some (u ''1940E7FDAA265529'')) (u ''https://rh.salsabil.dj''))) =
     [[DrawImage (u ''https://rh.salsabil.dj/verify/1940E7FDAA265529'') 12 257 30 30,
       DrawCentredString 105 17
         (u ''Code de v'' @ [233] @ u ''rification : 1940E7FDAA265529'')]] \<and>
   map canvas (projr (generate_interview_invitation_pdf example_renderer example_row
       (Some (u ''2025-10-20T14:00'')) None (u ''https://rh.salsabil.dj''))) = [[]] \<and>
   map canvas (projr (generate_acceptance_letter_pdf example_renderer example_row None
       (u ''https://rh.salsabil.dj''))) = [[]]"
proof -
  let ?url = "u ''https://rh.salsabil.dj''"
  let ?c = "u ''1940E7FDAA265529''"
  let ?mark = "[DrawImage (u ''https://rh.salsabil.dj/verify/1940E7FDAA265529'') 12 257 30 30,
       DrawCentredString 105 17 (u ''Code de v'' @ [233] @ u ''rification : 1940E7FDAA265529'')]"
  have c: "?c \<noteq> []" by (simp add: u_def)
  have m: "[DrawImage (?url @ u ''/verify/'' @ ?c) 12 257 30 30,
            DrawCentredString 105 17 (u ''Code de v'' @ [233] @ u ''rification : '' @ ?c)] = ?mark"
    by (simp add: u_def)
  have single: "\<And>(doc :: pdf) x y. map canvas doc = [y] \<Longrightarrow> doc \<noteq> [] \<and> (\<forall>p \<in> set doc. canvas p = x) \<Longrightarrow>
      map canvas doc = [x]"
    by (auto simp add: map_eq_Cons_conv)
  obtain d1 where d1: "generate_interview_invitation_pdf example_renderer example_row
       (Some (u ''2025-10-20T14:00'')) (Some ?c) ?url = Inr d1" and l1: "map canvas d1 = [add_qr_and_code (Some ?c) ?url]"
    using example_interview_doc [of "Some ?c" ?url] by auto
  obtain d2 where d2: "generate_acceptance_letter_pdf example_renderer example_row (Some ?c) ?url = Inr d2"
    and l2: "map canvas d2 = [add_qr_and_code (Some ?c) ?url]"
    using example_acceptance_doc [of "Some ?c" ?url] by auto
  obtain d3 where d3: "generate_interview_invitation_pdf example_renderer example_row
       (Some (u ''2025-10-20T14:00'')) None ?url = Inr d3" and l3: "map canvas d3 = [add_qr_and_code None ?url]"
    using example_interview_doc [of None ?url] by auto
  obtain d4 where d4: "generate_acceptance_letter_pdf example_renderer example_row None ?url = Inr d4"
    and l4: "map canvas d4 = [add_qr_and_code None ?url]"
    using example_acceptance_doc [of None ?url] by auto
  have 1: "map canvas d1 = [?mark]"
    using verification_mark_on_every_page [of example_renderer example_row
        "Some (u ''2025-10-20T14:00'')" "Some ?c" ?url d1] d1 c m
    by (intro single [OF l1]) simp
  have 2: "map canvas d2 = [?mark]"
    using verification_mark_on_every_page [of example_renderer example_row
        None "Some ?c" ?url d2] d2 c m
    by (intro single [OF l2]) simp
  have 3: "map canvas d3 = [[]]"
    using verification_mark_on_every_page [of example_renderer example_row
        "Some (u ''2025-10-20T14:00'')" None ?url d3] d3
    by (intro single [OF l3]) simp
  have 4: "map canvas d4 = [[]]"
    using verification_mark_on_every_page [of example_renderer example_row
        None None ?url d4] d4
    by (intro single [OF l4]) simp
  show ?thesis using 1 2 3 4 by (simp add: d1 d2 d3 d4)
qed

text \<open>
  The empty string passed as the verification code is a supplied code for which
  nothing is drawn: the invitation is rendered and its page carries neither the QR
  image nor a code text.
\<close>

theorem empty_code_draws_nothing_counterexample:
  "\<not> isl (generate_interview_invitation_pdf example_renderer example_row
           (Some (u ''2025-10-20T14:00'')) (Some []) (u ''https://rh.salsabil.dj'')) \<and>
   map canvas (projr (generate_interview_invitation_pdf example_renderer example_row
       (Some (u ''2025-10-20T14:00'')) (Some []) (u ''https://rh.salsabil.dj''))) = [[]]"
proof -
  obtain doc where "generate_interview_invitation_pdf example_renderer example_row
       (Some (u ''2025-10-20T14:00'')) (Some []) (u ''https://rh.salsabil.dj'') = Inr doc"
    and "map canvas doc = [add_qr_and_code (Some []) (u ''https://rh.salsabil.dj'')]"
    using example_interview_doc [of "Some []" "u ''https://rh.salsabil.dj''"] by auto
  then show ?thesis by (simp add: add_qr_and_code_def)
qed

section \<open>The code of the phase-1 invitation\<close>

lemma selected_doc_canvas:
  assumes "applications w i = Some r" and "makedirs_ok e" and "build_ok (renderer e)"
    and "layout (renderer e) = (\<lambda>es. (es, []))"
    and "logo_exists (renderer e) \<longrightarrow> logo_loads (renderer e)"
    and "\<forall>s. markup_ok (renderer e) s"
    and "\<forall>k \<in> set [''prenom'', ''nom'', ''email'', ''telephone'', ''adresse'', ''id'']. r k \<noteq> None"
    and "r ''job_title'' \<noteq> None"
  shows "map canvas (the (files (fst (update_phase1_status e w i (u ''selected_for_interview'') (Some d) reason))
           (u ''static/convocations/'' @ convocation_pdf_filename i (now e 1)))) =
         [add_qr_and_code (Some (convocation_verification_code i (now e 2))) (base_url_of e)]"
proof -
  have keys: "\<forall>k \<in> set [''prenom'', ''nom'', ''email'', ''telephone'', ''adresse'', ''id''].
      selected_row e r (Some d) k \<noteq> None"
    using assms(7) by (simp add: selected_row_def map_add_def)
  have jt: "selected_row e r (Some d) ''job_title'' \<noteq> None"
    using assms(8) by (simp add: selected_row_def map_add_def)
  obtain doc where doc: "generate_interview_invitation_pdf (renderer e) (selected_row e r (Some d)) (Some d)
      (Some (convocation_verification_code i (now e 2))) (base_url_of e) = Inr doc"
    using interview_success [OF assms(3,5,6) keys, of "Some d"] jt by auto
  from interview_single_page [OF assms(4) doc] show ?thesis
    by (simp add: phase1_selected_result [OF assms(1)] assms(2) doc)
qed

lemma example_env_facts:
  "makedirs_ok example_env" "build_ok (renderer example_env)"
  "layout (renderer example_env) = (\<lambda>es. (es, []))"
  "logo_exists (renderer example_env) \<longrightarrow> logo_loads (renderer example_env)"
  "\<forall>s. markup_ok (renderer example_env) s"
  "makedirs_ok later_env" "build_ok (renderer later_env)"
  "layout (renderer later_env) = (\<lambda>es. (es, []))"
  "logo_exists (renderer later_env) \<longrightarrow> logo_loads (renderer later_env)"
  "\<forall>s. markup_ok (renderer later_env) s"
  "base_url_of example_env = u ''http://localhost:5000''" "now example_env k = example_time"
  "base_url_of later_env = u ''http://localhost:5000''" "now later_env k = later_time"
  by (simp_all add: example_env_def later_env_def example_renderer_def base_url_of_def)

lemma example_row_present:
  "\<forall>k \<in> set [''prenom'', ''nom'', ''email'', ''telephone'', ''adresse'', ''id'']. example_row k \<noteq> None"
  "example_row ''job_title'' \<noteq> None"
  by (simp_all add: example_row_def)

lemma later_code: "convocation_verification_code 5 later_time = u ''CONV-5-20251015''"
  by (simp add: convocation_verification_code_def fmt_Ymd_def later_time_def zpad_def
        str_int_def str_nat.simps u_def)

lemma later_filename: "convocation_pdf_filename 5 later_time = u ''convocation_5_20251015_164510.pdf''"
  by (simp add: convocation_pdf_filename_def fmt_Ymd_HMS_def fmt_Ymd_def later_time_def zpad_def
        str_int_def str_nat.simps u_def)

text \<open>
  Claim C1, at the input where the code departs from it. A code of
  \<open>generate_verification_code\<close> has 16 characters of \<open>[A-Z0-9]\<close>
  (\<open>generate_verification_code_shape\<close>), but \<open>update_phase1_status\<close> does not call
  it: for application 5 on 15 October 2025 the code it embeds in the invitation is
  \<open>CONV-5-20251015\<close>, 15 characters with two hyphens, drawn on the page and encoded
  in the QR image.
\<close>

theorem phase1_code_is_a_reference_string:
  "convocation_verification_code 5 example_time = u ''CONV-5-20251015'' \<and>
   length (convocation_verification_code 5 example_time) = 15 \<and>
   \<not> list_all upper_alnum (convocation_verification_code 5 example_time) \<and>
   map canvas (the (files (fst (update_phase1_status example_env example_world 5
       (u ''selected_for_interview'') (Some (u ''2025-10-20T14:00'')) None))
       (u ''static/convocations/convocation_5_20251015_093000.pdf''))) =
     [[DrawImage (u ''http://localhost:5000/verify/CONV-5-20251015'') 12 257 30 30,
       DrawCentredString 105 17 (u ''Code de v'' @ [233] @ u ''rification : CONV-5-20251015'')]]"
proof -
  have "map canvas (the (files (fst (update_phase1_status example_env example_world 5
       (u ''selected_for_interview'') (Some (u ''2025-10-20T14:00'')) None))
       (u ''static/convocations/'' @ convocation_pdf_filename 5 (now example_env 1)))) =
     [add_qr_and_code (Some (convocation_verification_code 5 (now example_env 2)))
        (base_url_of example_env)]"
    by (rule selected_doc_canvas [OF example_world_row example_env_facts(1-5) example_row_present])
  then have "map canvas (the (files (fst (update_phase1_status example_env example_world 5
       (u ''selected_for_interview'') (Some (u ''2025-10-20T14:00'')) None))
       (u ''static/convocations/convocation_5_20251015_093000.pdf''))) =
     [add_qr_and_code (Some (u ''CONV-5-20251015'')) (u ''http://localhost:5000'')]"
    by (simp add: example_env_facts example_filename example_code u_def)
  then show ?thesis
    by (simp add: example_code add_qr_and_code_def) (simp add: u_def upper_alnum_def)
qed

text \<open>
  Claim C6, at the input where the code departs from it. Two
  \<open>selected_for_interview\<close> transitions of application 5 on the same day, at 09:30:00
  and at 16:45:10, embed the same verification code in their invitations.
\<close>

theorem same_day_codes_coincide:
  "example_time \<noteq> later_time \<and>
   convocation_verification_code 5 example_time = convocation_verification_code 5 later_time \<and>
   map canvas (the (files (fst (update_phase1_status example_env example_world 5
       (u ''selected_for_interview'') (Some (u ''2025-10-20T14:00'')) None))
       (u ''static/convocations/convocation_5_20251015_093000.pdf''))) =
   map canvas (the (files (fst (update_phase1_status later_env example_world 5
       (u ''selected_for_interview'') (Some (u ''2025-10-20T14:00'')) None))
       (u ''static/convocations/convocation_5_20251015_164510.pdf'')))"
proof -
  have 1: "map canvas (the (files (fst (update_phase1_status example_env example_world 5
       (u ''selected_for_interview'') (Some (u ''2025-10-20T14:00'')) None))
       (u ''static/convocations/'' @ convocation_pdf_filename 5 (now example_env 1)))) =
     [add_qr_and_code (Some (convocation_verification_code 5 (now example_env 2)))
        (base_url_of example_env)]"
    by (rule selected_doc_canvas [OF example_world_row example_env_facts(1-5) example_row_present])
  have 2: "map canvas (the (files (fst (update_phase1_status later_env example_world 5
       (u ''selected_for_interview'') (Some (u ''2025-10-20T14:00'')) None))
       (u ''static/convocations/'' @ convocation_pdf_filename 5 (now later_env 1)))) =
     [add_qr_and_code (Some (convocation_verification_code 5 (now later_env 2)))
        (base_url_of later_env)]"
    by (rule selected_doc_canvas [OF example_world_row example_env_facts(6-10) example_row_present])
  have 3: "u ''static/convocations/'' @ u ''convocation_5_20251015_093000.pdf'' =
           u ''static/convocations/convocation_5_20251015_093000.pdf''"
          "u ''static/convocations/'' @ u ''convocation_5_20251015_164510.pdf'' =
           u ''static/convocations/convocation_5_20251015_164510.pdf''"
    by (simp_all add: u_def)
  have "example_time \<noteq> later_time" by (simp add: example_time_def later_time_def)
  then show ?thesis
    using 1 2 by (simp add: example_env_facts example_filename later_filename example_code later_code 3)
qed

end
